theory Spec2Isabelle
  imports Main
begin

section \<open>JavaScript values, exceptions and the parameter store\<close>

text \<open>
  The helpers read node parameters through the host function \<open>getNodeParameter\<close> and cast
  the result (\<open>as string\<close>, \<open>as boolean\<close>) without checking it, so a parameter can hold a
  value of any type. Values are modelled by \<open>jsval\<close>. Strings are byte strings (the UTF-8
  encoding of the JavaScript string), and an object that is only read is held by value
  as an association list. The code never computes with a number it reads: it tests its
  truthiness, compares it with strings and booleans, and inserts it into template
  literals. A number is therefore held as the text \<open>String(n)\<close> gives for it (\<open>100\<close>, \<open>0.5\<close>,
  \<open>1e+21\<close>, \<open>NaN\<close>, \<open>Infinity\<close>; both zeros give \<open>0\<close>), which determines the number.
\<close>

datatype jsval =
    JUndefined
  | JNull
  | JBool bool
  | JNum string
  | JStr string
  | JArr "jsval list"
  | JObj "(string \<times> jsval) list"

text \<open>Truthiness, as \<open>if (v)\<close>, \<open>a && b\<close> and \<open>a || b\<close> test it.\<close>

fun truthy :: "jsval \<Rightarrow> bool" where
  "truthy JUndefined = False"
| "truthy JNull = False"
| "truthy (JBool b) = b"
| "truthy (JNum n) = (n \<noteq> ''0'' \<and> n \<noteq> ''NaN'')"
| "truthy (JStr s) = (s \<noteq> [])"
| "truthy (JArr xs) = True"
| "truthy (JObj kvs) = True"

fun join :: "string \<Rightarrow> string list \<Rightarrow> string" where
  "join sep [] = []"
| "join sep [s] = s"
| "join sep (s # t # ss) = s @ sep @ join sep (t # ss)"

text \<open>The string a template literal \<open>`${v}`\<close> inserts for a value.\<close>

fun to_string :: "jsval \<Rightarrow> string" where
  "to_string JUndefined = ''undefined''"
| "to_string JNull = ''null''"
| "to_string (JBool b) = (if b then ''true'' else ''false'')"
| "to_string (JNum n) = n"
| "to_string (JStr s) = s"
| "to_string (JArr xs) =
     join '','' (map (\<lambda>x. if x = JUndefined \<or> x = JNull then [] else to_string x) xs)"
| "to_string (JObj kvs) = ''[object Object]''"

text \<open>
  Reading a property \<open>v.k\<close> of a value that is neither \<open>undefined\<close> nor \<open>null\<close>: a
  property the value does not have reads \<open>undefined\<close>. The code reads properties of
  credential objects, input items and responses. Built-in and inherited properties
  (\<open>length\<close>, the indices of an array, \<open>constructor\<close>) are not modelled: the keys read this way
  are taken not to name one.
\<close>

fun get_prop :: "jsval \<Rightarrow> string \<Rightarrow> jsval" where
  "get_prop (JObj kvs) k = (case map_of kvs k of None \<Rightarrow> JUndefined | Some v \<Rightarrow> v)"
| "get_prop v k = JUndefined"

text \<open>\<open>String.prototype.includes\<close>: whether \<open>p\<close> occurs in \<open>s\<close>.\<close>

fun str_includes :: "string \<Rightarrow> string \<Rightarrow> bool" where
  "str_includes [] p = (p = [])"
| "str_includes (c # cs) p = (take (length p) (c # cs) = p \<or> str_includes cs p)"

text \<open>
  A thrown \<open>Error\<close>, with the two fields the code reads: \<open>message\<close> and (for errors of the
  HTTP client) \<open>description\<close>, the empty string when the error has none.
\<close>

datatype exn = Error (message: string) (description: string)

definition new_Error :: "string \<Rightarrow> exn" where
  "new_Error msg = Error msg []"

text \<open>
  A computation that may throw returns \<open>exn + 'a\<close>: \<open>Inl\<close> is the exception. \<open>bindE\<close>
  sequences two statements, \<open>try_catch\<close> is \<open>try { body } catch (error) { handler }\<close>.
\<close>

definition bindE :: "exn + 'a \<Rightarrow> ('a \<Rightarrow> exn + 'b) \<Rightarrow> exn + 'b" where
  "bindE m f = (case m of Inl e \<Rightarrow> Inl e | Inr v \<Rightarrow> f v)"

definition try_catch :: "exn + 'a \<Rightarrow> (exn \<Rightarrow> exn + 'a) \<Rightarrow> exn + 'a" where
  "try_catch body handler = (case body of Inl e \<Rightarrow> handler e | Inr v \<Rightarrow> Inr v)"

text \<open>
  \<open>IExecuteFunctions\<close>, as far as the helper classes use it. The host function
  \<open>getNodeParameter(name, itemIndex, fallback?)\<close> is not part of these sources; it is a
  field of the record, so every theorem holds for any behaviour of the host: a read may
  return any value or throw, with or without a fallback. The third argument is \<open>None\<close>
  when the call passes no fallback.
\<close>

record exec_functions =
  getNodeParameter :: "string \<Rightarrow> int \<Rightarrow> jsval option \<Rightarrow> exn + jsval"

section \<open>The enabling flag\<close>

text \<open>\<open>DynamicCredentialsHelper.isDynamicCredentialEnabled\<close>\<close>

definition isDynamicCredentialEnabled :: "exec_functions \<Rightarrow> int \<Rightarrow> exn + bool" where
  "isDynamicCredentialEnabled execFunctions itemIndex =
     try_catch
       (bindE (getNodeParameter execFunctions ''useDynamicCredentials'' itemIndex None)
          (\<lambda>useDynamicCredentials. Inr (useDynamicCredentials = JBool True)))
       (\<lambda>error. Inr False)"

text \<open>\<open>ZammadDynamicCredentialsHelper.isDynamicCredentialEnabled\<close>\<close>

definition zammad_isDynamicCredentialEnabled :: "exec_functions \<Rightarrow> int \<Rightarrow> exn + bool" where
  "zammad_isDynamicCredentialEnabled execFunctions itemIndex =
     try_catch
       (bindE (getNodeParameter execFunctions ''useZammadDynamicCredentials'' itemIndex None)
          (\<lambda>useZammadDynamicCredentials. Inr (useZammadDynamicCredentials = JBool True)))
       (\<lambda>error. Inr False)"

section \<open>Resolving the credentials\<close>

text \<open>
  \<open>DynamicCredentialsHelper.getDynamicCredentials\<close>. The object it returns is built here
  and only read afterwards, so it is a value. Everything after the first check runs inside
  one \<open>try\<close> block whose handler rethrows with a prefixed message; the \<open>throw\<close> for an
  unsupported type is inside that block too.
\<close>

definition getDynamicCredentials :: "exec_functions \<Rightarrow> int \<Rightarrow> exn + jsval" where
  "getDynamicCredentials execFunctions itemIndex =
     bindE (isDynamicCredentialEnabled execFunctions itemIndex) (\<lambda>enabled.
     if \<not> enabled then Inl (new_Error ''Dynamic credentials are not enabled for this node'')
     else
       try_catch
         (bindE (getNodeParameter execFunctions ''credentialType'' itemIndex None)
            (\<lambda>credentialType.
            if credentialType = JStr ''basic'' then
              bindE (getNodeParameter execFunctions ''basicUsername'' itemIndex None) (\<lambda>username.
              bindE (getNodeParameter execFunctions ''basicPassword'' itemIndex None) (\<lambda>password.
              Inr (JObj [(''username'', username), (''password'', password)])))
            else
              bindE (getNodeParameter execFunctions ''credentialPath'' itemIndex None)
                (\<lambda>tokenValue.
                if credentialType = JStr ''oauth2'' then Inr (JObj [(''accessToken'', tokenValue)])
                else if credentialType = JStr ''apiKey'' then Inr (JObj [(''apiKey'', tokenValue)])
                else Inl (new_Error
                       (''Unsupported credential type: '' @ to_string credentialType)))))
         (\<lambda>error. Inl (new_Error (''Failed to get dynamic credentials: '' @ message error))))"

section \<open>Request options and the objects they share with the caller\<close>

text \<open>
  \<open>{ ...options }\<close> copies the fields of the request options one level deep: the copy's
  \<open>headers\<close> and \<open>qs\<close> are the caller's own objects until they are replaced. Whether the
  caller's descriptor changes therefore depends on which object a write goes to, and the
  two nested objects live in an explicit store: \<open>headers\<close> and \<open>qs\<close> hold an address
  (\<open>None\<close> for \<open>undefined\<close>), the store maps an address to the object's fields, and a new
  object takes the next free address. The other fields are never written through and
  are values.
\<close>

type_synonym addr = nat
type_synonym obj = "string \<rightharpoonup> jsval"
type_synonym heap = "obj list"

definition alloc :: "heap \<Rightarrow> obj \<Rightarrow> addr \<times> heap" where
  "alloc h ob = (length h, h @ [ob])"

text \<open>
  The assignment \<open>o[k] = v\<close> to an object of the store. An assignment to the key
  \<open>__proto__\<close> of an object that has no property of its own by that name goes to the
  setter the object inherits and adds no property.
\<close>

definition set_field :: "heap \<Rightarrow> addr \<Rightarrow> string \<Rightarrow> jsval \<Rightarrow> heap" where
  "set_field h a k v =
     (if k = ''__proto__'' \<and> (h ! a) k = None then h else h[a := (h ! a)(k \<mapsto> v)])"

record request_options =
  http_method :: jsval
  uri :: jsval
  headers :: "addr option"
  qs :: "addr option"
  body :: jsval
  auth :: "(jsval \<times> jsval) option"
  rejectUnauthorized :: jsval

text \<open>
  The standard base64 encoding (RFC 4648, with padding) that
  \<open>Buffer.from(s).toString('base64')\<close> computes. \<open>Buffer.from(s)\<close> is the UTF-8 encoding
  of \<open>s\<close>, which is what a \<open>string\<close> holds here.
\<close>

definition b64_char :: "nat \<Rightarrow> char" where
  "b64_char n = ''ABCDEFGHIJKLMNOPQRSTUVWXYZabcdefghijklmnopqrstuvwxyz0123456789+/'' ! n"

fun base64 :: "string \<Rightarrow> string" where
  "base64 [] = []"
| "base64 [a] =
     (let x = (of_char a :: nat) in
      [b64_char (x div 4), b64_char ((x mod 4) * 16), CHR ''='', CHR ''=''])"
| "base64 [a, b] =
     (let x = (of_char a :: nat); y = (of_char b :: nat) in
      [b64_char (x div 4), b64_char ((x mod 4) * 16 + y div 16), b64_char ((y mod 16) * 4),
       CHR ''=''])"
| "base64 (a # b # c # rest) =
     (let x = (of_char a :: nat); y = (of_char b :: nat); z = (of_char c :: nat) in
      [b64_char (x div 4), b64_char ((x mod 4) * 16 + y div 16),
       b64_char ((y mod 16) * 4 + z div 64), b64_char (z mod 64)] @ base64 rest)"

text \<open>
  \<open>DynamicCredentialsHelper.applyDynamicCredentials\<close>, as the class that also defines the
  proxy has it. (The copy of the class that follows the property list differs in one
  line: for \<open>oauth2\<close> it sets \<open>Authorization\<close> to the token without the \<open>Bearer\<close>
  prefix.) It returns the new options and the store after the call.
  \<open>newOptions.headers = { ...newOptions.headers }\<close> allocates a copy of the headers;
  \<open>newOptions.qs = newOptions.qs || {}\<close> keeps the caller's object when there is one. A
  property key is converted to a string.
\<close>

definition applyDynamicCredentials ::
  "exec_functions \<Rightarrow> heap \<Rightarrow> request_options \<Rightarrow> int \<Rightarrow> exn + (request_options \<times> heap)" where
  "applyDynamicCredentials execFunctions h options itemIndex =
     bindE (isDynamicCredentialEnabled execFunctions itemIndex) (\<lambda>enabled.
     if \<not> enabled then Inr (options, h)
     else
       bindE (getDynamicCredentials execFunctions itemIndex) (\<lambda>credentials.
       bindE (getNodeParameter execFunctions ''credentialType'' itemIndex None) (\<lambda>credentialType.
       let (hdrs, h1) = alloc h (case headers options of None \<Rightarrow> Map.empty | Some a \<Rightarrow> h ! a);
           newOptions = options\<lparr>headers := Some hdrs\<rparr>
       in
         if credentialType = JStr ''oauth2'' then
           Inr (newOptions,
                set_field h1 hdrs ''Authorization''
                  (JStr (''Bearer '' @ to_string (get_prop credentials ''accessToken''))))
         else if credentialType = JStr ''apiKey'' then
           bindE (getNodeParameter execFunctions ''apiKeyLocation'' itemIndex
                    (Some (JStr ''header''))) (\<lambda>location.
           bindE (getNodeParameter execFunctions ''apiKeyName'' itemIndex
                    (Some (JStr ''X-API-Key''))) (\<lambda>keyName.
           if location = JStr ''header'' then
             Inr (newOptions,
                  set_field h1 hdrs (to_string keyName) (get_prop credentials ''apiKey''))
           else if location = JStr ''query'' then
             (case qs newOptions of
                Some q \<Rightarrow>
                  Inr (newOptions,
                       set_field h1 q (to_string keyName) (get_prop credentials ''apiKey''))
              | None \<Rightarrow>
                  (let (q, h2) = alloc h1 Map.empty in
                   Inr (newOptions\<lparr>qs := Some q\<rparr>,
                        set_field h2 q (to_string keyName) (get_prop credentials ''apiKey''))))
           else Inr (newOptions, h1)))
         else if credentialType = JStr ''basic'' then
           Inr (newOptions,
                set_field h1 hdrs ''Authorization''
                  (JStr (''Basic '' @
                     base64 (to_string (get_prop credentials ''username'') @ '':'' @
                             to_string (get_prop credentials ''password'')))))
         else Inl (new_Error (''Unsupported credential type: '' @ to_string credentialType)))))"

section \<open>The credentials proxy\<close>

text \<open>
  \<open>createCredentialsProxy\<close> wraps an arbitrary function \<open>originalMethod\<close>. Such a function
  may throw, may have effects of its own (a state \<open>'s\<close> it reads and updates), and returns
  a value the proxy never inspects (for \<open>getCredentials\<close>, a promise). To count its
  invocations, the world the proxy runs in pairs that state with the list of argument
  lists \<open>originalMethod\<close> has been applied to.
\<close>

type_synonym ('s, 'r) js_function = "jsval list \<Rightarrow> 's \<Rightarrow> (exn + 'r) \<times> 's"

type_synonym 's world = "'s \<times> jsval list list"

definition invoke ::
  "('s, 'r) js_function \<Rightarrow> jsval list \<Rightarrow> 's world \<Rightarrow> (exn + 'r) \<times> 's world" where
  "invoke originalMethod args w =
     (case w of (s, calls) \<Rightarrow>
        (case originalMethod args s of (r, s') \<Rightarrow> (r, (s', calls @ [args]))))"

text \<open>
  What the proxy returns: \<open>Promise.resolve(helper.getDynamicCredentials(0))\<close>, or whatever
  \<open>originalMethod\<close> returned.
\<close>

datatype 'r returned = Resolved jsval | Original 'r

text \<open>
  The function \<open>createCredentialsProxy\<close> returns, applied to \<open>args\<close>. The whole body is one
  \<open>try\<close> block, the call of \<open>originalMethod\<close> in the \<open>else\<close> branch included, and the
  handler calls \<open>originalMethod\<close>; each \<open>Inl\<close> branch below is that handler.
\<close>

definition createCredentialsProxy ::
  "('s, 'r) js_function \<Rightarrow> exec_functions \<Rightarrow> jsval list \<Rightarrow> 's world \<Rightarrow>
     (exn + 'r returned) \<times> 's world" where
  "createCredentialsProxy originalMethod execFunctions args w =
     (let handler = (\<lambda>w. case invoke originalMethod args w of
                             (r, w') \<Rightarrow> (map_sum id Original r, w'))
      in
        case getNodeParameter execFunctions ''useDynamicCredentials'' 0 (Some (JBool False)) of
          Inl error \<Rightarrow> handler w
        | Inr useDynamicCredentials \<Rightarrow>
            if truthy useDynamicCredentials then
              (case getDynamicCredentials execFunctions 0 of
                 Inl error \<Rightarrow> handler w
               | Inr credentials \<Rightarrow> (Inr (Resolved credentials), w))
            else
              (case invoke originalMethod args w of
                 (Inl error, w') \<Rightarrow> handler w'
               | (Inr r, w') \<Rightarrow> (Inr (Original r), w')))"

text \<open>A static lookup that throws: no credentials of the requested type are stored.\<close>

definition failing_lookup :: "(unit, jsval) js_function" where
  "failing_lookup args s = (Inl (new_Error ''Node does not have any credentials set''), s)"

section \<open>The Zammad helper\<close>

text \<open>\<open>ZammadDynamicCredentialsHelper.getAuthenticationType\<close>\<close>

definition zammad_getAuthenticationType :: "exec_functions \<Rightarrow> int \<Rightarrow> exn + jsval" where
  "zammad_getAuthenticationType execFunctions itemIndex =
     getNodeParameter execFunctions ''authentication'' itemIndex None"

text \<open>\<open>ZammadDynamicCredentialsHelper.getDynamicCredentials\<close>\<close>

definition zammad_getDynamicCredentials :: "exec_functions \<Rightarrow> int \<Rightarrow> exn + jsval" where
  "zammad_getDynamicCredentials execFunctions itemIndex =
     bindE (zammad_isDynamicCredentialEnabled execFunctions itemIndex) (\<lambda>enabled.
     if \<not> enabled then Inl (new_Error ''Dynamic credentials are not enabled for this node'')
     else
       try_catch
         (bindE (zammad_getAuthenticationType execFunctions itemIndex) (\<lambda>authenticationType.
          bindE (getNodeParameter execFunctions ''baseUrl'' itemIndex (Some (JStr [])))
            (\<lambda>baseUrl.
          bindE (getNodeParameter execFunctions ''allowUnauthorizedCerts'' itemIndex
                   (Some (JBool False))) (\<lambda>allowUnauthorizedCerts.
          let credentials =
                [(''baseUrl'', baseUrl), (''allowUnauthorizedCerts'', allowUnauthorizedCerts)]
          in
            if authenticationType = JStr ''basicAuth'' then
              bindE (getNodeParameter execFunctions ''username'' itemIndex None) (\<lambda>username.
              bindE (getNodeParameter execFunctions ''password'' itemIndex None) (\<lambda>password.
              Inr (JObj (credentials @ [(''username'', username), (''password'', password)]))))
            else
              bindE (getNodeParameter execFunctions ''accessToken'' itemIndex None)
                (\<lambda>accessToken.
                Inr (JObj (credentials @ [(''accessToken'', accessToken)])))))))
         (\<lambda>error. Inl (new_Error (''Failed to get dynamic credentials: '' @ message error))))"

text \<open>
  The regular expression \<open>/\/api\/v1(.*)$/\<close>: the leftmost occurrence of \<open>/api/v1\<close>
  whose remainder runs to the end of the string without a line terminator (\<open>.\<close> matches
  none of LF, CR, U+2028, U+2029, here in UTF-8). The result is the captured group.
\<close>

fun has_line_terminator :: "string \<Rightarrow> bool" where
  "has_line_terminator [] = False"
| "has_line_terminator (c # cs) =
     (c = CHR 0x0A \<or> c = CHR 0x0D \<or>
      take 3 (c # cs) = [CHR 0xE2, CHR 0x80, CHR 0xA8] \<or>
      take 3 (c # cs) = [CHR 0xE2, CHR 0x80, CHR 0xA9] \<or>
      has_line_terminator cs)"

fun match_api_v1 :: "string \<Rightarrow> string option" where
  "match_api_v1 [] = None"
| "match_api_v1 (c # cs) =
     (if take 7 (c # cs) = ''/api/v1'' \<and> \<not> has_line_terminator (drop 7 (c # cs))
      then Some (drop 7 (c # cs))
      else match_api_v1 cs)"

text \<open>
  \<open>ZammadDynamicCredentialsHelper.applyDynamicCredentials\<close>. The options are copied one
  level deep and nothing more: \<open>newOptions.headers = newOptions.headers || {}\<close> keeps the
  caller's headers object when there is one.
\<close>

definition zammad_applyDynamicCredentials ::
  "exec_functions \<Rightarrow> heap \<Rightarrow> request_options \<Rightarrow> int \<Rightarrow> exn + (request_options \<times> heap)" where
  "zammad_applyDynamicCredentials execFunctions h options itemIndex =
     bindE (zammad_isDynamicCredentialEnabled execFunctions itemIndex) (\<lambda>enabled.
     if \<not> enabled then Inr (options, h)
     else
       bindE (zammad_getDynamicCredentials execFunctions itemIndex) (\<lambda>credentials.
       bindE (zammad_getAuthenticationType execFunctions itemIndex) (\<lambda>authenticationType.
       let newOptions = options;
           newOptions =
             (case get_prop credentials ''baseUrl'' of
                JStr url \<Rightarrow>
                  if url \<noteq> [] then
                    (let baseUrl = (if last url = CHR ''/'' then butlast url else url);
                         endpoint =
                           (case uri newOptions of
                              JStr u \<Rightarrow>
                                if u \<noteq> [] then
                                  (case match_api_v1 u of
                                     Some captured \<Rightarrow> if captured \<noteq> [] then captured else []
                                   | None \<Rightarrow> [])
                                else []
                            | _ \<Rightarrow> [])
                     in newOptions\<lparr>uri := JStr (baseUrl @ ''/api/v1'' @ endpoint)\<rparr>)
                  else newOptions
              | _ \<Rightarrow> newOptions);
           (newOptions, h1) =
             (if authenticationType = JStr ''basicAuth'' then
                (if truthy (get_prop credentials ''username'') \<and>
                    truthy (get_prop credentials ''password'')
                 then (newOptions\<lparr>auth := Some (get_prop credentials ''username'',
                                                get_prop credentials ''password'')\<rparr>, h)
                 else (newOptions, h))
              else
                (if truthy (get_prop credentials ''accessToken'') then
                   (case headers newOptions of
                      Some a \<Rightarrow>
                        (newOptions,
                         set_field h a ''Authorization''
                           (JStr (''Token token='' @
                                  to_string (get_prop credentials ''accessToken''))))
                    | None \<Rightarrow>
                        (let (a, h0) = alloc h Map.empty in
                         (newOptions\<lparr>headers := Some a\<rparr>,
                          set_field h0 a ''Authorization''
                            (JStr (''Token token='' @
                                   to_string (get_prop credentials ''accessToken''))))))
                 else (newOptions, h)));
           newOptions =
             (if get_prop credentials ''allowUnauthorizedCerts'' \<noteq> JUndefined
              then newOptions\<lparr>rejectUnauthorized :=
                     JBool (\<not> truthy (get_prop credentials ''allowUnauthorizedCerts''))\<rparr>
              else newOptions)
       in Inr (newOptions, h1))))"

text \<open>
  What a descriptor looks like from outside: its headers map and its query map (empty
  when the field is \<open>undefined\<close>), and its whole structure, nested objects by value.
\<close>

definition headers_map :: "heap \<Rightarrow> request_options \<Rightarrow> obj" where
  "headers_map h options = (case headers options of None \<Rightarrow> Map.empty | Some a \<Rightarrow> h ! a)"

definition query_map :: "heap \<Rightarrow> request_options \<Rightarrow> obj" where
  "query_map h options = (case qs options of None \<Rightarrow> Map.empty | Some a \<Rightarrow> h ! a)"

definition structure_of ::
  "heap \<Rightarrow> request_options \<Rightarrow>
     jsval \<times> jsval \<times> obj option \<times> obj option \<times> jsval \<times> (jsval \<times> jsval) option \<times> jsval" where
  "structure_of h options =
     (http_method options, uri options, map_option (\<lambda>a. h ! a) (headers options),
      map_option (\<lambda>a. h ! a) (qs options), body options, auth options,
      rejectUnauthorized options)"

text \<open>Every object a descriptor refers to exists in the store.\<close>

definition wf_options :: "heap \<Rightarrow> request_options \<Rightarrow> bool" where
  "wf_options h options =
     ((case headers options of None \<Rightarrow> True | Some a \<Rightarrow> a < length h) \<and>
      (case qs options of None \<Rightarrow> True | Some a \<Rightarrow> a < length h))"

section \<open>The Microsoft Outlook request helpers\<close>

text \<open>
  The \<open>options\<close> object \<open>microsoftApiRequest\<close> builds and hands to the HTTP helper of the
  host, nested objects by value, as the helper sees them when it is called. \<open>req_body\<close> is
  \<open>None\<close> once \<open>delete options.body\<close> has run; \<open>req_option\<close> holds the fields
  \<open>Object.assign(options, option)\<close> adds (the callers in this file pass \<open>json\<close>,
  \<open>encoding\<close> and \<open>resolveWithFullResponse\<close>, never one of the five fields above).
\<close>

record http_request =
  req_headers :: "(string \<times> jsval) list"
  req_method :: jsval
  req_body :: "(string \<times> jsval) list option"
  req_qs :: obj
  req_uri :: jsval
  req_option :: "(string \<times> jsval) list"

text \<open>
  The calls a request makes to the host, in order. The host may answer a call differently
  each time: its functions see the calls made so far.
\<close>

datatype host_call =
    GetCredentials string
  | Request http_request
  | RequestWithAuthentication string http_request

text \<open>
  \<open>this\<close>: the execution context. \<open>getNodeParameter\<close> and \<open>getInputData\<close> are \<open>None\<close> when
  the context has no such function; \<open>getInputData()\<close> returns the list of input items.
  An awaited promise that rejects is a throw. \<open>prepareApiError\<close> is imported from a file
  that is not part of these sources; it is \<open>None\<close> where the call throws or returns
  nothing.
\<close>

record request_context =
  this_getNodeParameter :: "(string \<Rightarrow> int \<Rightarrow> jsval option \<Rightarrow> exn + jsval) option"
  this_getInputData :: "jsval list option"
  this_getCredentials :: "host_call list \<Rightarrow> string \<Rightarrow> exn + jsval"
  helpers_request :: "host_call list \<Rightarrow> http_request \<Rightarrow> exn + jsval"
  helpers_requestWithAuthentication ::
    "host_call list \<Rightarrow> string \<Rightarrow> http_request \<Rightarrow> exn + jsval"
  prepareApiError :: "exn \<Rightarrow> exn option"

text \<open>Reading \<open>v.k\<close> where \<open>v\<close> may be \<open>undefined\<close> or \<open>null\<close>: a \<open>TypeError\<close> then.\<close>

definition get_member :: "jsval \<Rightarrow> string \<Rightarrow> exn + jsval" where
  "get_member v k =
     (if v = JUndefined \<or> v = JNull
      then Inl (new_Error (''Cannot read properties of '' @ to_string v @ '' (reading '' @
                           [CHR 0x27] @ k @ [CHR 0x27] @ '')''))
      else Inr (get_prop v k))"

text \<open>
  Assigning one property of an object held by value, and \<open>Object.assign\<close>, which assigns
  the properties of the source one by one (the key \<open>__proto__\<close> as in \<open>set_field\<close>).
\<close>

fun set_key :: "string \<Rightarrow> jsval \<Rightarrow> (string \<times> jsval) list \<Rightarrow> (string \<times> jsval) list" where
  "set_key k v [] = [(k, v)]"
| "set_key k v ((k', v') # rest) =
     (if k = k' then (k, v) # rest else (k', v') # set_key k v rest)"

definition object_assign ::
  "(string \<times> jsval) list \<Rightarrow> (string \<times> jsval) list \<Rightarrow> (string \<times> jsval) list" where
  "object_assign target source =
     foldl (\<lambda>acc (k, v). if k = ''__proto__'' \<and> map_of acc k = None then acc
                         else set_key k v acc) target source"

text \<open>\<open>toLowerCase\<close>, on the ASCII letters.\<close>

definition to_lower :: "string \<Rightarrow> string" where
  "to_lower s =
     map (\<lambda>c. if (65 :: nat) \<le> of_char c \<and> of_char c \<le> (90 :: nat)
              then char_of (of_char c + (32 :: nat)) else c) s"

text \<open>\<open>await this.getCredentials('microsoftOutlookOAuth2Api')\<close>\<close>

definition static_credentials ::
  "request_context \<Rightarrow> host_call list \<Rightarrow> (exn + jsval) \<times> host_call list" where
  "static_credentials this log =
     (this_getCredentials this log ''microsoftOutlookOAuth2Api'',
      log @ [GetCredentials ''microsoftOutlookOAuth2Api''])"

text \<open>
  The first part of \<open>microsoftApiRequest\<close>: the value of \<open>credentials\<close>. The body of the
  \<open>try\<close> block includes the static lookup of its \<open>else\<close> branch, and the handler is the
  static lookup.
\<close>

definition dynamic_input_credentials ::
  "(string \<Rightarrow> int \<Rightarrow> jsval option \<Rightarrow> exn + jsval) \<Rightarrow> jsval list \<Rightarrow> int \<Rightarrow> exn + jsval" where
  "dynamic_input_credentials getNodeParameter' inputData itemIndex =
     bindE (getNodeParameter' ''credentialsParameterName'' itemIndex (Some (JStr ''credentials'')))
       (\<lambda>credentialsParameterName.
       if int (length inputData) > itemIndex then
         bindE (if itemIndex < 0 then get_member JUndefined ''json''
                else get_member (inputData ! nat itemIndex) ''json'') (\<lambda>json.
         if truthy json then
           (let credentials = get_prop json (to_string credentialsParameterName) in
            if \<not> truthy credentials then
              Inl (new_Error (''No credentials found in input data with parameter name \"'' @
                              to_string credentialsParameterName @ ''\"''))
            else Inr credentials)
         else Inl (new_Error ''No input data available for dynamic credentials''))
       else Inl (new_Error ''No input data available for dynamic credentials''))"

definition request_credentials ::
  "request_context \<Rightarrow> host_call list \<Rightarrow> int \<Rightarrow> (exn + jsval) \<times> host_call list" where
  "request_credentials this log itemIndex =
     (case (this_getNodeParameter this, this_getInputData this) of
        (Some getNodeParameter', Some inputData) \<Rightarrow>
          (case getNodeParameter' ''credentialsSource'' itemIndex (Some (JStr ''static'')) of
             Inl error \<Rightarrow> static_credentials this log
           | Inr credentialsSource \<Rightarrow>
               if credentialsSource = JStr ''dynamic'' then
                 (case dynamic_input_credentials getNodeParameter' inputData itemIndex of
                    Inl error \<Rightarrow> static_credentials this log
                  | Inr credentials \<Rightarrow> (Inr credentials, log))
               else
                 (case static_credentials this log of
                    (Inl error, log1) \<Rightarrow> static_credentials this log1
                  | (Inr credentials, log1) \<Rightarrow> (Inr credentials, log1)))
      | _ \<Rightarrow> static_credentials this log)"

text \<open>The handler of the second \<open>try\<close> block: the error it throws for a caught error.\<close>

definition api_error ::  "request_context \<Rightarrow> exn \<Rightarrow> exn" where
  "api_error this error =
     (if (str_includes (to_lower (message error)) ''bad request'' \<or>
          str_includes (to_lower (message error)) ''unknown error'') \<and>
         description error \<noteq> []
      then (case prepareApiError this error of
              Some updatedError \<Rightarrow> updatedError
            | None \<Rightarrow> Error (description error) [])
      else error)"

text \<open>
  \<open>microsoftApiRequest\<close>. The arguments \<open>body\<close>, \<open>qs\<close> and \<open>headers\<close> are objects the function
  only reads and passes on; they are values here (\<open>None\<close> for an omitted \<open>qs\<close>, which
  defaults to a new empty object). The result is what the function returns or throws and
  the calls made to the host so far.
\<close>

definition microsoftApiRequest ::
  "request_context \<Rightarrow> host_call list \<Rightarrow> jsval \<Rightarrow> string \<Rightarrow> (string \<times> jsval) list \<Rightarrow>
     obj option \<Rightarrow> jsval \<Rightarrow> (string \<times> jsval) list \<Rightarrow> (string \<times> jsval) list \<Rightarrow> int \<Rightarrow>
     (exn + jsval) \<times> host_call list" where
  "microsoftApiRequest this log method resource body' qs' uri' headers' option itemIndex =
     (case request_credentials this log itemIndex of
        (Inl error, log1) \<Rightarrow> (Inl error, log1)
      | (Inr credentials, log1) \<Rightarrow>
          (case bindE (get_member credentials ''useShared'') (\<lambda>useShared.
                  if truthy useShared \<and> truthy (get_prop credentials ''userPrincipalName'')
                  then Inr (''https://graph.microsoft.com/v1.0/users/'' @
                            to_string (get_prop credentials ''userPrincipalName'') @ resource)
                  else Inr (''https://graph.microsoft.com/v1.0/me'' @ resource)) of
             Inl error \<Rightarrow> (Inl error, log1)
           | Inr apiUrl \<Rightarrow>
               (let options =
                      \<lparr>req_headers = [(''Content-Type'', JStr ''application/json'')],
                       req_method = method,
                       req_body = Some body',
                       req_qs = (case qs' of None \<Rightarrow> Map.empty | Some q \<Rightarrow> q),
                       req_uri = (if truthy uri' then uri' else JStr apiUrl),
                       req_option = []\<rparr>;
                    options = options\<lparr>req_option := object_assign (req_option options) option\<rparr>;
                    options =
                      (if headers' \<noteq> []
                       then options\<lparr>req_headers :=
                              object_assign (object_assign [] (req_headers options)) headers'\<rparr>
                       else options);
                    options = (if body' = [] then options\<lparr>req_body := None\<rparr> else options)
                in
                  case (if truthy credentials then
                          (case (this_getNodeParameter this, this_getInputData this) of
                             (Some getNodeParameter', Some inputData) \<Rightarrow>
                               bindE (getNodeParameter' ''credentialsSource'' itemIndex
                                        (Some (JStr ''static'')))
                                 (\<lambda>credentialsSource. Inr (credentialsSource = JStr ''dynamic''))
                           | _ \<Rightarrow> Inr False)
                        else Inr False) of
                    Inl error \<Rightarrow> (Inl (api_error this error), log1)
                  | Inr dynamic \<Rightarrow>
                      if dynamic then
                        (let options = options\<lparr>req_headers :=
                               set_key ''Authorization''
                                 (JStr (''Bearer '' @
                                        to_string (get_prop credentials ''access_token'')))
                                 (req_headers options)\<rparr>
                         in (case helpers_request this log1 options of
                               Inl error \<Rightarrow> Inl (api_error this error)
                             | Inr response \<Rightarrow> Inr response,
                             log1 @ [Request options]))
                      else
                        (case helpers_requestWithAuthentication this log1
                                ''microsoftOutlookOAuth2Api'' options of
                           Inl error \<Rightarrow> Inl (api_error this error)
                         | Inr response \<Rightarrow> Inr response,
                         log1 @ [RequestWithAuthentication ''microsoftOutlookOAuth2Api''
                                   options]))))"

text \<open>
  The arguments \<open>returnData.push.apply(returnData, v)\<close> pushes: none for \<open>undefined\<close> or
  \<open>null\<close>, the elements of an array, and none for an object that has no \<open>length\<close>;
  \<open>apply\<close> throws a \<open>TypeError\<close> for a value that is not an object. For an object with a
  \<open>length\<close> property the list depends on the number that property converts to; that
  conversion is the parameter \<open>array_like\<close>, so what is proved holds whatever it yields.
  (The limit an engine puts on the number of arguments is not modelled.)
\<close>

definition apply_arguments ::
  "((string \<times> jsval) list \<Rightarrow> exn + jsval list) \<Rightarrow> jsval \<Rightarrow> exn + jsval list" where
  "apply_arguments array_like v =
     (case v of
        JArr xs \<Rightarrow> Inr xs
      | JUndefined \<Rightarrow> Inr []
      | JNull \<Rightarrow> Inr []
      | JObj kvs \<Rightarrow> if map_of kvs ''length'' = None then Inr [] else array_like kvs
      | _ \<Rightarrow> Inl (new_Error ''CreateListFromArrayLike called on non-object''))"

text \<open>
  The \<open>do ... while\<close> loop of \<open>microsoftApiRequestAllItems\<close>. It runs as long as the
  responses carry \<open>@odata.nextLink\<close>, so for some hosts it never ends. The first argument
  bounds the number of iterations: the result is the state of the call after at most
  that many, namely what the call returned or threw (\<open>None\<close> while the loop is still
  running) and the calls made to the host so far. The query object is read from the
  store at each request that passes it.
\<close>

fun allItems_loop ::
  "nat \<Rightarrow> request_context \<Rightarrow> ((string \<times> jsval) list \<Rightarrow> exn + jsval list) \<Rightarrow> heap \<Rightarrow> string \<Rightarrow>
     jsval \<Rightarrow> string \<Rightarrow> (string \<times> jsval) list \<Rightarrow> addr \<Rightarrow> (string \<times> jsval) list \<Rightarrow> int \<Rightarrow>
     jsval \<Rightarrow> jsval list \<Rightarrow> host_call list \<Rightarrow> (exn + jsval list) option \<times> host_call list" where
  "allItems_loop 0 this array_like h propertyName method endpoint body' query headers'
       itemIndex nextLink returnData log = (None, log)"
| "allItems_loop (Suc fuel) this array_like h propertyName method endpoint body' query headers'
       itemIndex nextLink returnData log =
     (case microsoftApiRequest this log method endpoint body'
             (if truthy nextLink then None else Some (h ! query)) nextLink headers'
             [(''json'', JBool True)] itemIndex of
        (Inl error, log1) \<Rightarrow> (Some (Inl error), log1)
      | (Inr responseData, log1) \<Rightarrow>
          (case get_member responseData ''@odata.nextLink'' of
             Inl error \<Rightarrow> (Some (Inl error), log1)
           | Inr nextLink' \<Rightarrow>
               (case apply_arguments array_like (get_prop responseData propertyName) of
                  Inl error \<Rightarrow> (Some (Inl error), log1)
                | Inr items \<Rightarrow>
                    if nextLink' \<noteq> JUndefined
                    then allItems_loop fuel this array_like h propertyName method endpoint
                           body' query headers' itemIndex nextLink' (returnData @ items) log1
                    else (Some (Inr (returnData @ items)), log1))))"

text \<open>
  \<open>microsoftApiRequestAllItems\<close>, after at most \<open>fuel\<close> iterations of its loop. \<open>query\<close> is
  the address of the caller's query object, or \<open>None\<close> when the caller passes none and
  the default \<open>{}\<close> is allocated. The result is what the call returned or threw (\<open>None\<close>
  while it is still running), the store of objects and the calls made to the host. The
  HTTP helper of the host is taken to read the options it is handed and not to write to
  them.
\<close>

definition microsoftApiRequestAllItems ::
  "nat \<Rightarrow> request_context \<Rightarrow> ((string \<times> jsval) list \<Rightarrow> exn + jsval list) \<Rightarrow> heap \<Rightarrow>
     host_call list \<Rightarrow> string \<Rightarrow> jsval \<Rightarrow> string \<Rightarrow> (string \<times> jsval) list \<Rightarrow> addr option \<Rightarrow>
     (string \<times> jsval) list \<Rightarrow> int \<Rightarrow> (exn + jsval list) option \<times> heap \<times> host_call list" where
  "microsoftApiRequestAllItems fuel this array_like h log propertyName method endpoint body'
       query headers' itemIndex =
     (let (query, h0) = (case query of Some q \<Rightarrow> (q, h) | None \<Rightarrow> alloc h Map.empty);
          h1 = set_field h0 query ''$top'' (JNum ''100'');
          (outcome, log') = allItems_loop fuel this array_like h1 propertyName method endpoint
                              body' query headers' itemIndex JUndefined [] log
      in (outcome, h1, log'))"

text \<open>The requests among the calls made to the host.\<close>

fun requests_of :: "host_call list \<Rightarrow> http_request list" where
  "requests_of [] = []"
| "requests_of (GetCredentials t # cs) = requests_of cs"
| "requests_of (Request r # cs) = r # requests_of cs"
| "requests_of (RequestWithAuthentication t r # cs) = r # requests_of cs"

section \<open>Node descriptions\<close>

text \<open>
  \<open>JSON.parse(JSON.stringify(v))\<close> on a value: a property whose value is \<open>undefined\<close> is
  left out of an object, \<open>undefined\<close> inside an array becomes \<open>null\<close>, and a number that is
  not finite becomes \<open>null\<close>. (Functions, which \<open>jsval\<close> does not have, are treated like
  \<open>undefined\<close> by \<open>JSON.stringify\<close>.)
\<close>

fun json_clone :: "jsval \<Rightarrow> jsval" where
  "json_clone (JArr xs) = JArr (map (\<lambda>x. if x = JUndefined then JNull else json_clone x) xs)"
| "json_clone (JObj kvs) =
     JObj (map (\<lambda>(k, v). (k, json_clone v)) (filter (\<lambda>(k, v). v \<noteq> JUndefined) kvs))"
| "json_clone (JNum n) =
     (if n = ''NaN'' \<or> n = ''Infinity'' \<or> n = ''-Infinity'' then JNull else JNum n)"
| "json_clone v = v"

text \<open>Plain JSON data: no \<open>undefined\<close> and no number that is not finite anywhere.\<close>

fun json_data :: "jsval \<Rightarrow> bool" where
  "json_data JUndefined = False"
| "json_data (JArr xs) = list_all json_data xs"
| "json_data (JObj kvs) = list_all (\<lambda>(k, v). json_data v) kvs"
| "json_data (JNum n) = (n \<noteq> ''NaN'' \<and> n \<noteq> ''Infinity'' \<and> n \<noteq> ''-Infinity'')"
| "json_data v = True"

text \<open>
  \<open>INodeTypeDescription\<close>, with the two fields the function touches typed as the
  declaration types them: \<open>properties\<close> is a list of property objects and \<open>credentials\<close> a
  list of \<open>INodeCredentialDescription\<close> (\<open>None\<close> when the field is absent). A credential
  description has a \<open>name\<close>, an optional \<open>required\<close> and further JSON fields; the remaining
  fields of the description are JSON fields too.
\<close>

record node_credential =
  name :: string
  required :: "bool option"
  extra :: "(string \<times> jsval) list"

record node_description =
  properties :: "jsval list option"
  credentials :: "node_credential list option"
  other_fields :: "(string \<times> jsval) list"

definition clone_elements :: "jsval list \<Rightarrow> jsval list" where
  "clone_elements xs = map (\<lambda>x. if x = JUndefined then JNull else json_clone x) xs"

definition clone_fields :: "(string \<times> jsval) list \<Rightarrow> (string \<times> jsval) list" where
  "clone_fields kvs =
     map (\<lambda>(k, v). (k, json_clone v)) (filter (\<lambda>(k, v). v \<noteq> JUndefined) kvs)"

definition clone_credential :: "node_credential \<Rightarrow> node_credential" where
  "clone_credential c = c\<lparr>extra := clone_fields (extra c)\<rparr>"

text \<open>\<open>JSON.parse(JSON.stringify(nodeDescription))\<close> on a description.\<close>

definition json_clone_description :: "node_description \<Rightarrow> node_description" where
  "json_clone_description d =
     \<lparr>properties = map_option clone_elements (properties d),
      credentials = map_option (map clone_credential) (credentials d),
      other_fields = clone_fields (other_fields d)\<rparr>"

text \<open>The constant \<open>dynamicCredentialsProperties\<close> of \<open>DynamicCredentialsProperties.ts\<close>.\<close>

definition dynamicCredentialsProperties :: "jsval list" where
  "dynamicCredentialsProperties =
     [JObj [(''displayName'', JStr ''Use Dynamic Credentials''),
            (''name'', JStr ''useDynamicCredentials''),
            (''type'', JStr ''boolean''),
            (''default'', JBool False),
            (''description'', JStr
               ''Whether to use credentials from a previous node instead of stored credentials'')],
      JObj [(''displayName'', JStr ''Credential Type''),
            (''name'', JStr ''credentialType''),
            (''type'', JStr ''options''),
            (''displayOptions'', JObj [(''show'', JObj
               [(''useDynamicCredentials'', JArr [JBool True])])]),
            (''options'', JArr
               [JObj [(''name'', JStr ''OAuth2''), (''value'', JStr ''oauth2'')],
                JObj [(''name'', JStr ''API Key''), (''value'', JStr ''apiKey'')],
                JObj [(''name'', JStr ''Basic Auth''), (''value'', JStr ''basic'')]]),
            (''default'', JStr ''oauth2''),
            (''description'', JStr ''Type of credential to use from the input data'')],
      JObj [(''displayName'', JStr ''Access Token''),
            (''name'', JStr ''credentialPath''),
            (''type'', JStr ''string''),
            (''displayOptions'', JObj [(''show'', JObj
               [(''useDynamicCredentials'', JArr [JBool True]),
                (''credentialType'', JArr [JStr ''oauth2''])])]),
            (''default'', JStr []),
            (''description'', JStr ''Access token for OAuth2 authentication'')],
      JObj [(''displayName'', JStr ''API Key''),
            (''name'', JStr ''credentialPath''),
            (''type'', JStr ''string''),
            (''displayOptions'', JObj [(''show'', JObj
               [(''useDynamicCredentials'', JArr [JBool True]),
                (''credentialType'', JArr [JStr ''apiKey''])])]),
            (''default'', JStr []),
            (''description'', JStr ''API key for authentication'')],
      JObj [(''displayName'', JStr ''Username''),
            (''name'', JStr ''basicUsername''),
            (''type'', JStr ''string''),
            (''displayOptions'', JObj [(''show'', JObj
               [(''useDynamicCredentials'', JArr [JBool True]),
                (''credentialType'', JArr [JStr ''basic''])])]),
            (''default'', JStr []),
            (''description'', JStr ''Username for basic authentication'')],
      JObj [(''displayName'', JStr ''Password''),
            (''name'', JStr ''basicPassword''),
            (''type'', JStr ''string''),
            (''typeOptions'', JObj [(''password'', JBool True)]),
            (''displayOptions'', JObj [(''show'', JObj
               [(''useDynamicCredentials'', JArr [JBool True]),
                (''credentialType'', JArr [JStr ''basic''])])]),
            (''default'', JStr []),
            (''description'', JStr ''Password for basic authentication'')],
      JObj [(''displayName'', JStr ''API Key Location''),
            (''name'', JStr ''apiKeyLocation''),
            (''type'', JStr ''options''),
            (''displayOptions'', JObj [(''show'', JObj
               [(''useDynamicCredentials'', JArr [JBool True]),
                (''credentialType'', JArr [JStr ''apiKey''])])]),
            (''options'', JArr
               [JObj [(''name'', JStr ''Header''), (''value'', JStr ''header'')],
                JObj [(''name'', JStr ''Query Parameter''), (''value'', JStr ''query'')]]),
            (''default'', JStr ''header''),
            (''description'', JStr ''Where to add the API key in the request'')],
      JObj [(''displayName'', JStr ''API Key Name''),
            (''name'', JStr ''apiKeyName''),
            (''type'', JStr ''string''),
            (''displayOptions'', JObj [(''show'', JObj
               [(''useDynamicCredentials'', JArr [JBool True]),
                (''credentialType'', JArr [JStr ''apiKey''])])]),
            (''default'', JStr ''X-API-Key''),
            (''description'', JStr ''Name of the header or query parameter for the API key'')]]"

text \<open>
  \<open>addDynamicCredentialsProperties\<close>. The function assigns to two fields of the top-level
  object \<open>newDescription\<close> and to nothing else, so descriptions live in a store of their own
  in which an address holds a whole description: the argument is the address of the
  caller's description, \<open>JSON.parse\<close> allocates the clone at a fresh address, and both
  assignments go to that address. The result is the address of the new description
  and the store after the call.
\<close>

definition addDynamicCredentialsProperties ::
  "node_description list \<Rightarrow> addr \<Rightarrow> addr \<times> node_description list" where
  "addDynamicCredentialsProperties store nodeDescription =
     (let newDescription = length store;
          store1 = store @ [json_clone_description (store ! nodeDescription)];
          store2 = store1[newDescription := (store1 ! newDescription)
                     \<lparr>properties := Some (dynamicCredentialsProperties @
                        (case properties (store1 ! newDescription) of
                           None \<Rightarrow> []
                         | Some ps \<Rightarrow> ps))\<rparr>];
          store3 =
            (case credentials (store2 ! newDescription) of
               None \<Rightarrow> store2
             | Some cs \<Rightarrow>
                 store2[newDescription := (store2 ! newDescription)
                   \<lparr>credentials :=
                      Some (map (\<lambda>credential. credential\<lparr>required := Some False\<rparr>) cs)\<rparr>])
      in (newDescription, store3))"

text \<open>A description with one property and two credentials, one of them required.\<close>

definition description_zammad :: node_description where
  "description_zammad =
     \<lparr>properties = Some [JObj [(''displayName'', JStr ''Resource''), (''name'', JStr ''resource''),
                              (''type'', JStr ''options''), (''default'', JStr ''user'')]],
      credentials = Some [\<lparr>name = ''zammadBasicAuthApi'', required = Some True, extra = []\<rparr>,
                          \<lparr>name = ''zammadTokenAuthApi'', required = None, extra = []\<rparr>],
      other_fields = [(''displayName'', JStr ''Zammad''), (''version'', JNum ''1'')]\<rparr>"

section \<open>Concrete parameter stores\<close>

text \<open>
  A host whose parameters are the pairs of a list: a parameter in the list reads its
  value, one that is not reads the fallback when the call gives one, and throws otherwise.
\<close>

definition store_of :: "(string \<times> jsval) list \<Rightarrow> exec_functions" where
  "store_of params =
     \<lparr>getNodeParameter = (\<lambda>name itemIndex fallback.
        case map_of params name of
          Some v \<Rightarrow> Inr v
        | None \<Rightarrow> (case fallback of
                     Some d \<Rightarrow> Inr d
                   | None \<Rightarrow> Inl (new_Error ''Could not get parameter'')))\<rparr>"

section \<open>Concrete descriptors\<close>

text \<open>
  A descriptor whose \<open>headers\<close> and \<open>qs\<close> are objects of the caller, at addresses 0 and 1
  of the store \<open>heap_shared\<close>; \<open>heap_empty_qs\<close> is the same store with an empty query
  object; \<open>options_ticket\<close> is the same descriptor with the URI of a Zammad ticket.
\<close>

definition options_shared :: request_options where
  "options_shared =
     \<lparr>http_method = JStr ''GET'', uri = JStr ''https://api.example.com/items'', headers = Some 0,
      qs = Some 1, body = JUndefined, auth = None, rejectUnauthorized = JUndefined\<rparr>"

definition heap_shared :: heap where
  "heap_shared = [[''Accept'' \<mapsto> JStr ''application/json''], [''page'' \<mapsto> JStr ''1'']]"

definition heap_empty_qs :: heap where
  "heap_empty_qs = [[''Accept'' \<mapsto> JStr ''application/json''], Map.empty]"

definition params_apiKey_query :: "(string \<times> jsval) list" where
  "params_apiKey_query =
     [(''useDynamicCredentials'', JBool True), (''credentialType'', JStr ''apiKey''),
      (''credentialPath'', JStr ''abc''), (''apiKeyLocation'', JStr ''query'')]"

definition params_basic_u_p :: "(string \<times> jsval) list" where
  "params_basic_u_p =
     [(''useDynamicCredentials'', JBool True), (''credentialType'', JStr ''basic''),
      (''basicUsername'', JStr ''u''), (''basicPassword'', JStr ''p'')]"

definition options_ticket :: request_options where
  "options_ticket =
     \<lparr>http_method = JStr ''GET'', uri = JStr ''https://old.example.com/api/v1/tickets/5'',
      headers = Some 0, qs = Some 1, body = JUndefined, auth = None,
      rejectUnauthorized = JUndefined\<rparr>"

text \<open>The same descriptor, carrying the \<open>auth\<close> of a stored credential.\<close>

definition options_with_auth :: request_options where
  "options_with_auth =
     \<lparr>http_method = JStr ''GET'', uri = JStr ''https://old.example.com/api/v1/tickets/5'',
      headers = Some 0, qs = Some 1, body = JUndefined,
      auth = Some (JStr ''agent@example.com'', JStr ''stored-password''),
      rejectUnauthorized = JUndefined\<rparr>"

definition params_zammad_token :: "(string \<times> jsval) list" where
  "params_zammad_token =
     [(''useZammadDynamicCredentials'', JBool True), (''authentication'', JStr ''tokenAuth''),
      (''baseUrl'', JStr ''https://new.example.com/''), (''accessToken'', JStr ''t0ken'')]"

definition params_zammad_token_empty :: "(string \<times> jsval) list" where
  "params_zammad_token_empty =
     [(''useZammadDynamicCredentials'', JBool True), (''authentication'', JStr ''tokenAuth''),
      (''baseUrl'', JStr ''https://new.example.com/''), (''accessToken'', JStr [])]"

definition params_zammad_basic_empty :: "(string \<times> jsval) list" where
  "params_zammad_basic_empty =
     [(''useZammadDynamicCredentials'', JBool True), (''authentication'', JStr ''basicAuth''),
      (''baseUrl'', JStr ''https://new.example.com/''), (''username'', JStr ''admin''),
      (''password'', JStr [])]"

text \<open>
  A host with a static credential, whose mail API answers every request with one page of
  one message and no \<open>@odata.nextLink\<close>.
\<close>

definition host_one_page :: request_context where
  "host_one_page =
     \<lparr>this_getNodeParameter = None,
      this_getInputData = None,
      this_getCredentials = (\<lambda>log t. Inr (JObj [(''oauthTokenData'', JObj [])])),
      helpers_request = (\<lambda>log r. Inr (JObj [])),
      helpers_requestWithAuthentication =
        (\<lambda>log t r. Inr (JObj [(''value'', JArr [JObj [(''id'', JStr ''m1'')]])])),
      prepareApiError = (\<lambda>error. None)\<rparr>"

text \<open>A host whose mail API answers every request with a page that names a next page.\<close>

definition host_endless :: request_context where
  "host_endless =
     \<lparr>this_getNodeParameter = None,
      this_getInputData = None,
      this_getCredentials = (\<lambda>log t. Inr (JObj [(''oauthTokenData'', JObj [])])),
      helpers_request = (\<lambda>log r. Inr (JObj [])),
      helpers_requestWithAuthentication =
        (\<lambda>log t r. Inr (JObj [(''@odata.nextLink'',
                                JStr ''https://graph.microsoft.com/v1.0/me/messages?$skip=100''),
                               (''value'', JArr [JObj [(''id'', JStr ''m1'')]])])),
      prepareApiError = (\<lambda>error. None)\<rparr>"

text \<open>Array-like objects do not occur in the examples.\<close>

definition no_array_like :: "(string \<times> jsval) list \<Rightarrow> exn + jsval list" where
  "no_array_like kvs = Inr []"

text \<open>
  A host whose static lookup always rejects, in a context that has both
  \<open>getNodeParameter\<close> and \<open>getInputData\<close> and no parameter set.
\<close>

definition host_no_credentials :: request_context where
  "host_no_credentials =
     \<lparr>this_getNodeParameter = Some (getNodeParameter (store_of [])),
      this_getInputData = Some [],
      this_getCredentials =
        (\<lambda>log t. Inl (new_Error ''Node does not have any credentials set'')),
      helpers_request = (\<lambda>log r. Inr (JObj [])),
      helpers_requestWithAuthentication = (\<lambda>log t r. Inr (JObj [])),
      prepareApiError = (\<lambda>error. None)\<rparr>"

section \<open>Properties of the enabling flag\<close>

lemma isDynamicCredentialEnabled_eq:
  "isDynamicCredentialEnabled ef i =
     Inr (getNodeParameter ef ''useDynamicCredentials'' i None = Inr (JBool True))"
  by (auto simp: isDynamicCredentialEnabled_def try_catch_def bindE_def split: sum.splits)

lemma zammad_isDynamicCredentialEnabled_eq:
  "zammad_isDynamicCredentialEnabled ef i =
     Inr (getNodeParameter ef ''useZammadDynamicCredentials'' i None = Inr (JBool True))"
  by (auto simp: zammad_isDynamicCredentialEnabled_def try_catch_def bindE_def split: sum.splits)

text \<open>
  Claim C3. In both helpers \<open>isDynamicCredentialEnabled\<close> never throws, whatever the host
  does; it returns \<open>false\<close> when the read of the flag throws and when the flag reads a
  value other than the boolean \<open>true\<close> (a string, a number, \<open>undefined\<close>); it returns
  \<open>true\<close> exactly when the flag reads the boolean \<open>true\<close>. No other parameter is read.
\<close>

theorem isDynamicCredentialEnabled_false_on_read_failure:
  "(\<exists>b. isDynamicCredentialEnabled ef i = Inr b) \<and>
   (\<forall>e. getNodeParameter ef ''useDynamicCredentials'' i None = Inl e \<longrightarrow>
      isDynamicCredentialEnabled ef i = Inr False) \<and>
   (\<forall>v. getNodeParameter ef ''useDynamicCredentials'' i None = Inr v \<longrightarrow> v \<noteq> JBool True \<longrightarrow>
      isDynamicCredentialEnabled ef i = Inr False) \<and>
   (isDynamicCredentialEnabled ef i = Inr True \<longleftrightarrow>
      getNodeParameter ef ''useDynamicCredentials'' i None = Inr (JBool True)) \<and>
   (\<exists>b. zammad_isDynamicCredentialEnabled ef i = Inr b) \<and>
   (\<forall>e. getNodeParameter ef ''useZammadDynamicCredentials'' i None = Inl e \<longrightarrow>
      zammad_isDynamicCredentialEnabled ef i = Inr False) \<and>
   (\<forall>v. getNodeParameter ef ''useZammadDynamicCredentials'' i None = Inr v \<longrightarrow> v \<noteq> JBool True \<longrightarrow>
      zammad_isDynamicCredentialEnabled ef i = Inr False) \<and>
   (zammad_isDynamicCredentialEnabled ef i = Inr True \<longleftrightarrow>
      getNodeParameter ef ''useZammadDynamicCredentials'' i None = Inr (JBool True))"
  by (simp add: isDynamicCredentialEnabled_eq zammad_isDynamicCredentialEnabled_eq)

text \<open>
  A store in which the flag is absent while every other parameter reads \<open>true\<close>, and a
  store in which the flag holds the string \<open>true\<close>: both helpers answer \<open>false\<close>.
\<close>

theorem isDynamicCredentialEnabled_false_on_read_failure_witness:
  "isDynamicCredentialEnabled
     \<lparr>getNodeParameter = (\<lambda>name i d.
        if name = ''useDynamicCredentials'' \<or> name = ''useZammadDynamicCredentials''
        then Inl (new_Error ''Could not get parameter'') else Inr (JBool True))\<rparr> 3 = Inr False \<and>
   zammad_isDynamicCredentialEnabled
     \<lparr>getNodeParameter = (\<lambda>name i d.
        if name = ''useDynamicCredentials'' \<or> name = ''useZammadDynamicCredentials''
        then Inl (new_Error ''Could not get parameter'') else Inr (JBool True))\<rparr> 3 = Inr False \<and>
   isDynamicCredentialEnabled \<lparr>getNodeParameter = (\<lambda>name i d. Inr (JStr ''true''))\<rparr> 0 = Inr False \<and>
   zammad_isDynamicCredentialEnabled \<lparr>getNodeParameter = (\<lambda>name i d. Inr (JStr ''true''))\<rparr> 0
     = Inr False"
  using isDynamicCredentialEnabled_false_on_read_failure
      [of "\<lparr>getNodeParameter = (\<lambda>name i d.
        if name = ''useDynamicCredentials'' \<or> name = ''useZammadDynamicCredentials''
        then Inl (new_Error ''Could not get parameter'') else Inr (JBool True))\<rparr>" 3]
    isDynamicCredentialEnabled_false_on_read_failure
      [of "\<lparr>getNodeParameter = (\<lambda>name i d. Inr (JStr ''true''))\<rparr>" 0]
  by simp

section \<open>Properties of the resolution\<close>

lemma getDynamicCredentials_enabled:
  assumes "getNodeParameter ef ''useDynamicCredentials'' i None = Inr (JBool True)"
  shows "getDynamicCredentials ef i =
     try_catch
       (bindE (getNodeParameter ef ''credentialType'' i None)
          (\<lambda>credentialType.
          if credentialType = JStr ''basic'' then
            bindE (getNodeParameter ef ''basicUsername'' i None) (\<lambda>username.
            bindE (getNodeParameter ef ''basicPassword'' i None) (\<lambda>password.
            Inr (JObj [(''username'', username), (''password'', password)])))
          else
            bindE (getNodeParameter ef ''credentialPath'' i None)
              (\<lambda>tokenValue.
              if credentialType = JStr ''oauth2'' then Inr (JObj [(''accessToken'', tokenValue)])
              else if credentialType = JStr ''apiKey'' then Inr (JObj [(''apiKey'', tokenValue)])
              else Inl (new_Error
                     (''Unsupported credential type: '' @ to_string credentialType)))))
       (\<lambda>error. Inl (new_Error (''Failed to get dynamic credentials: '' @ message error)))"
  using assms by (simp add: getDynamicCredentials_def isDynamicCredentialEnabled_eq bindE_def)

text \<open>
  With dynamic credentials enabled and a \<open>credentialType\<close> that is none of \<open>oauth2\<close>,
  \<open>apiKey\<close>, \<open>basic\<close>, \<open>getDynamicCredentials\<close> always throws and returns no object; when
  the parameter \<open>credentialPath\<close> can be read, the error names the unsupported value.
\<close>

lemma getDynamicCredentials_unsupported_type_throws:
  assumes "getNodeParameter ef ''useDynamicCredentials'' i None = Inr (JBool True)"
    and "getNodeParameter ef ''credentialType'' i None = Inr v"
    and "v \<noteq> JStr ''oauth2''" and "v \<noteq> JStr ''apiKey''" and "v \<noteq> JStr ''basic''"
  shows "(\<exists>e. getDynamicCredentials ef i = Inl e) \<and>
    (\<forall>t. getNodeParameter ef ''credentialPath'' i None = Inr t \<longrightarrow>
       getDynamicCredentials ef i =
         Inl (new_Error (''Failed to get dynamic credentials: Unsupported credential type: ''
                @ to_string v)))"
  using assms
  by (cases "getNodeParameter ef ''credentialPath'' i None")
     (simp_all add: getDynamicCredentials_enabled try_catch_def bindE_def new_Error_def)

lemma unsupported_type_named_when_path_readable:
  "getDynamicCredentials
     (store_of [(''useDynamicCredentials'', JBool True), (''credentialType'', JStr ''ntlm''),
                (''credentialPath'', JStr ''secret'')]) 0 =
   Inl (new_Error ''Failed to get dynamic credentials: Unsupported credential type: ntlm'')"
  by (simp add: getDynamicCredentials_enabled store_of_def try_catch_def bindE_def
      new_Error_def)

text \<open>
  Claim C4 on the code. The claim says that with dynamic credentials enabled and an
  unsupported \<open>credentialType\<close> such as \<open>ntlm\<close>, \<open>getDynamicCredentials\<close> fails with an error
  naming the unsupported value. The code reads \<open>credentialPath\<close>, the field of the
  \<open>oauth2\<close> and \<open>apiKey\<close> types, before it looks at the type. In the store below the flag
  is \<open>true\<close>, the type reads \<open>ntlm\<close> and \<open>credentialPath\<close> is not set: the error that
  reaches the caller is the failed read of \<open>credentialPath\<close>, and it does not name \<open>ntlm\<close>.
\<close>

theorem getDynamicCredentials_unsupported_type_not_named:
  "isDynamicCredentialEnabled
     (store_of [(''useDynamicCredentials'', JBool True), (''credentialType'', JStr ''ntlm'')]) 0
     = Inr True \<and>
   getNodeParameter
     (store_of [(''useDynamicCredentials'', JBool True), (''credentialType'', JStr ''ntlm'')])
     ''credentialType'' 0 None = Inr (JStr ''ntlm'') \<and>
   getDynamicCredentials
     (store_of [(''useDynamicCredentials'', JBool True), (''credentialType'', JStr ''ntlm'')]) 0
     = Inl (new_Error ''Failed to get dynamic credentials: Could not get parameter'') \<and>
   \<not> str_includes ''Failed to get dynamic credentials: Could not get parameter'' ''ntlm''"
  by (simp add: getDynamicCredentials_def isDynamicCredentialEnabled_eq store_of_def
      try_catch_def bindE_def new_Error_def)

section \<open>Properties of the generic helper\<close>

lemma base64_u_p: "base64 ''u:p'' = ''dTpw''"
  by (simp add: b64_char_def)

text \<open>
  Claim C5. With dynamic credentials enabled, \<open>credentialType\<close> reading \<open>basic\<close>, username
  \<open>u\<close> and password \<open>p\<close>, \<open>applyDynamicCredentials\<close> returns, for every descriptor and
  store, options whose headers object has \<open>Authorization\<close> equal to \<open>Basic dTpw\<close>.
\<close>

theorem applyDynamicCredentials_basic_u_p:
  assumes "getNodeParameter ef ''useDynamicCredentials'' i None = Inr (JBool True)"
    and "getNodeParameter ef ''credentialType'' i None = Inr (JStr ''basic'')"
    and "getNodeParameter ef ''basicUsername'' i None = Inr (JStr ''u'')"
    and "getNodeParameter ef ''basicPassword'' i None = Inr (JStr ''p'')"
  shows "\<exists>newOptions h'. applyDynamicCredentials ef h options i = Inr (newOptions, h') \<and>
           headers_map h' newOptions ''Authorization'' = Some (JStr ''Basic dTpw'')"
  using assms
  by (simp add: applyDynamicCredentials_def isDynamicCredentialEnabled_eq
      getDynamicCredentials_enabled try_catch_def bindE_def alloc_def set_field_def
      headers_map_def b64_char_def)

theorem applyDynamicCredentials_basic_u_p_witness:
  "\<exists>newOptions h'.
     applyDynamicCredentials (store_of params_basic_u_p) heap_shared options_shared 0
       = Inr (newOptions, h') \<and>
     headers_map h' newOptions ''Authorization'' = Some (JStr ''Basic dTpw'')"
  using applyDynamicCredentials_basic_u_p
    [of "store_of params_basic_u_p" 0 heap_shared options_shared]
  by (simp add: store_of_def params_basic_u_p_def)

text \<open>
  Claim C7. For every descriptor whose query map is empty (no \<open>qs\<close>, or an empty \<open>qs\<close>
  object), with dynamic credentials enabled, type \<open>apiKey\<close>, key \<open>abc\<close>, location \<open>query\<close>
  and name \<open>X-API-Key\<close>, the returned descriptor's query map is exactly
  \<open>{X-API-Key: abc}\<close> and its headers map equals the input descriptor's headers map.
\<close>

theorem applyDynamicCredentials_apiKey_query:
  assumes "getNodeParameter ef ''useDynamicCredentials'' i None = Inr (JBool True)"
    and "getNodeParameter ef ''credentialType'' i None = Inr (JStr ''apiKey'')"
    and "getNodeParameter ef ''credentialPath'' i None = Inr (JStr ''abc'')"
    and "getNodeParameter ef ''apiKeyLocation'' i (Some (JStr ''header'')) = Inr (JStr ''query'')"
    and "getNodeParameter ef ''apiKeyName'' i (Some (JStr ''X-API-Key''))
           = Inr (JStr ''X-API-Key'')"
    and "wf_options h options"
    and "query_map h options = Map.empty"
  shows "\<exists>newOptions h'. applyDynamicCredentials ef h options i = Inr (newOptions, h') \<and>
           query_map h' newOptions = [''X-API-Key'' \<mapsto> JStr ''abc''] \<and>
           headers_map h' newOptions = headers_map h options"
proof (cases "qs options")
  case None
  with assms show ?thesis
    by (simp add: applyDynamicCredentials_def isDynamicCredentialEnabled_eq
        getDynamicCredentials_enabled try_catch_def bindE_def alloc_def set_field_def
        headers_map_def query_map_def nth_append)
next
  case (Some q)
  with assms have "q < length h" and "h ! q = Map.empty"
    by (simp_all add: wf_options_def query_map_def)
  with Some assms(1-5) show ?thesis
    by (simp add: applyDynamicCredentials_def isDynamicCredentialEnabled_eq
        getDynamicCredentials_enabled try_catch_def bindE_def alloc_def set_field_def
        headers_map_def query_map_def nth_append)
qed

theorem applyDynamicCredentials_apiKey_query_witness:
  "\<exists>newOptions h'.
     applyDynamicCredentials (store_of params_apiKey_query) heap_empty_qs options_shared 0
       = Inr (newOptions, h') \<and>
     query_map h' newOptions = [''X-API-Key'' \<mapsto> JStr ''abc''] \<and>
     headers_map h' newOptions = [''Accept'' \<mapsto> JStr ''application/json'']"
  using applyDynamicCredentials_apiKey_query
    [of "store_of params_apiKey_query" 0 heap_empty_qs options_shared]
  by (simp add: store_of_def params_apiKey_query_def heap_empty_qs_def options_shared_def
      wf_options_def query_map_def headers_map_def)

text \<open>
  The caller's objects under the generic helper: the headers object is always copied, and
  the only object of the caller a call can write to is its \<open>qs\<close> object.
\<close>

lemma applyDynamicCredentials_frame:
  assumes "applyDynamicCredentials ef h options i = Inr (newOptions, h')"
    and "a < length h" and "qs options \<noteq> Some a"
  shows "h' ! a = h ! a"
  using assms
  by (auto simp: applyDynamicCredentials_def bindE_def alloc_def set_field_def nth_append
      nth_list_update Let_def split: sum.splits if_splits option.splits)

lemma apiKey_query_on_shared:
  "applyDynamicCredentials (store_of params_apiKey_query) heap_shared options_shared 0
     = Inr (options_shared\<lparr>headers := Some 2\<rparr>,
            [[''Accept'' \<mapsto> JStr ''application/json''],
             [''page'' \<mapsto> JStr ''1'', ''X-API-Key'' \<mapsto> JStr ''abc''],
             [''Accept'' \<mapsto> JStr ''application/json'']])"
  by (simp add: applyDynamicCredentials_def isDynamicCredentialEnabled_eq
      getDynamicCredentials_enabled try_catch_def bindE_def alloc_def set_field_def
      store_of_def params_apiKey_query_def heap_shared_def options_shared_def)

lemma qs_object_changed:
  "[''page'' \<mapsto> JStr ''1'', ''X-API-Key'' \<mapsto> JStr ''abc''] \<noteq> [''page'' \<mapsto> JStr ''1'']"
proof
  assume "[''page'' \<mapsto> JStr ''1'', ''X-API-Key'' \<mapsto> JStr ''abc''] = [''page'' \<mapsto> JStr ''1'']"
  then have "[''page'' \<mapsto> JStr ''1'', ''X-API-Key'' \<mapsto> JStr ''abc''] ''X-API-Key''
      = [''page'' \<mapsto> JStr ''1''] ''X-API-Key''"
    by (rule arg_cong)
  then show False by simp
qed

text \<open>
  With an API key sent in the query, the key is written into the caller's own \<open>qs\<close>
  object: after the call the caller's descriptor has a query parameter it did not have.
\<close>

lemma applyDynamicCredentials_writes_caller_qs:
  "\<exists>newOptions h'.
     applyDynamicCredentials (store_of params_apiKey_query) heap_shared options_shared 0
       = Inr (newOptions, h') \<and>
     query_map heap_shared options_shared ''X-API-Key'' = None \<and>
     query_map h' options_shared ''X-API-Key'' = Some (JStr ''abc'') \<and>
     structure_of h' options_shared \<noteq> structure_of heap_shared options_shared"
proof (intro exI conjI)
  show "applyDynamicCredentials (store_of params_apiKey_query) heap_shared options_shared 0
     = Inr (options_shared\<lparr>headers := Some 2\<rparr>,
            [[''Accept'' \<mapsto> JStr ''application/json''],
             [''page'' \<mapsto> JStr ''1'', ''X-API-Key'' \<mapsto> JStr ''abc''],
             [''Accept'' \<mapsto> JStr ''application/json'']])"
    by (rule apiKey_query_on_shared)
  show "query_map heap_shared options_shared ''X-API-Key'' = None"
    by (simp add: query_map_def heap_shared_def options_shared_def)
  show "query_map
          [[''Accept'' \<mapsto> JStr ''application/json''],
           [''page'' \<mapsto> JStr ''1'', ''X-API-Key'' \<mapsto> JStr ''abc''],
           [''Accept'' \<mapsto> JStr ''application/json'']]
          options_shared ''X-API-Key'' = Some (JStr ''abc'')"
    by (simp add: query_map_def options_shared_def)
  show "structure_of
          [[''Accept'' \<mapsto> JStr ''application/json''],
           [''page'' \<mapsto> JStr ''1'', ''X-API-Key'' \<mapsto> JStr ''abc''],
           [''Accept'' \<mapsto> JStr ''application/json'']]
          options_shared \<noteq> structure_of heap_shared options_shared"
    using qs_object_changed
    by (simp add: structure_of_def heap_shared_def options_shared_def)
qed

section \<open>Properties of the Zammad helper\<close>

lemma match_old_uri:
  "match_api_v1 ''https://old.example.com/api/v1/tickets/5'' = Some ''/tickets/5''"
  by simp

lemma zammad_getDynamicCredentials_enabled:
  assumes "getNodeParameter ef ''useZammadDynamicCredentials'' i None = Inr (JBool True)"
    and "getNodeParameter ef ''authentication'' i None = Inr a"
    and "getNodeParameter ef ''baseUrl'' i (Some (JStr [])) = Inr b"
    and "getNodeParameter ef ''allowUnauthorizedCerts'' i (Some (JBool False)) = Inr c"
  shows "zammad_getDynamicCredentials ef i =
     (if a = JStr ''basicAuth'' then
        (case getNodeParameter ef ''username'' i None of
           Inl e \<Rightarrow> Inl (new_Error (''Failed to get dynamic credentials: '' @ message e))
         | Inr u \<Rightarrow>
            (case getNodeParameter ef ''password'' i None of
               Inl e \<Rightarrow> Inl (new_Error (''Failed to get dynamic credentials: '' @ message e))
             | Inr p \<Rightarrow>
                 Inr (JObj [(''baseUrl'', b), (''allowUnauthorizedCerts'', c),
                            (''username'', u), (''password'', p)])))
      else
        (case getNodeParameter ef ''accessToken'' i None of
           Inl e \<Rightarrow> Inl (new_Error (''Failed to get dynamic credentials: '' @ message e))
         | Inr t \<Rightarrow>
             Inr (JObj [(''baseUrl'', b), (''allowUnauthorizedCerts'', c),
                        (''accessToken'', t)])))"
  using assms
  by (simp add: zammad_getDynamicCredentials_def zammad_isDynamicCredentialEnabled_eq
      zammad_getAuthenticationType_def try_catch_def bindE_def split: sum.splits)

text \<open>
  Claim C6. With the Zammad helper enabled, a base URL reading \<open>https://new.example.com/\<close>
  and a descriptor whose URI is \<open>https://old.example.com/api/v1/tickets/5\<close>, the call
  returns (whenever the credential fields of the selected authentication can be read) and
  the returned URI is exactly \<open>https://new.example.com/api/v1/tickets/5\<close>: the trailing
  slash is stripped and the suffix after \<open>/api/v1\<close> is kept.
\<close>

theorem zammad_uri_rewrite:
  assumes "getNodeParameter ef ''useZammadDynamicCredentials'' i None = Inr (JBool True)"
    and "getNodeParameter ef ''authentication'' i None = Inr a"
    and "getNodeParameter ef ''baseUrl'' i (Some (JStr [])) = Inr (JStr ''https://new.example.com/'')"
    and "getNodeParameter ef ''allowUnauthorizedCerts'' i (Some (JBool False)) = Inr c"
    and "a = JStr ''basicAuth'' \<Longrightarrow>
           \<exists>u p. getNodeParameter ef ''username'' i None = Inr u \<and>
                 getNodeParameter ef ''password'' i None = Inr p"
    and "a \<noteq> JStr ''basicAuth'' \<Longrightarrow> \<exists>t. getNodeParameter ef ''accessToken'' i None = Inr t"
    and "uri options = JStr ''https://old.example.com/api/v1/tickets/5''"
  shows "\<exists>newOptions h'. zammad_applyDynamicCredentials ef h options i = Inr (newOptions, h') \<and>
           uri newOptions = JStr ''https://new.example.com/api/v1/tickets/5''"
proof (cases "a = JStr ''basicAuth''")
  case True
  with assms(5) obtain u p where
    "getNodeParameter ef ''username'' i None = Inr u"
    "getNodeParameter ef ''password'' i None = Inr p" by blast
  with True assms(1-4,7) show ?thesis
    by (simp add: zammad_applyDynamicCredentials_def zammad_isDynamicCredentialEnabled_eq
        zammad_getDynamicCredentials_enabled zammad_getAuthenticationType_def bindE_def
        match_old_uri Let_def)
next
  case False
  with assms(6) obtain t where "getNodeParameter ef ''accessToken'' i None = Inr t" by blast
  with False assms(1-4,7) show ?thesis
    by (simp add: zammad_applyDynamicCredentials_def zammad_isDynamicCredentialEnabled_eq
        zammad_getDynamicCredentials_enabled zammad_getAuthenticationType_def bindE_def
        match_old_uri Let_def alloc_def split: option.splits)
qed

theorem zammad_uri_rewrite_witness:
  "\<exists>newOptions h'.
     zammad_applyDynamicCredentials (store_of params_zammad_token) heap_shared options_ticket 0
       = Inr (newOptions, h') \<and>
     uri newOptions = JStr ''https://new.example.com/api/v1/tickets/5''"
  using zammad_uri_rewrite
    [of "store_of params_zammad_token" 0 "JStr ''tokenAuth''" "JBool False" options_ticket
        heap_shared]
  by (simp add: store_of_def params_zammad_token_def options_ticket_def)

text \<open>
  Claim C10, as the code has it. With the Zammad helper enabled, an empty credential
  field is neither applied nor rejected: the call returns and the store of objects is
  unchanged. With \<open>basicAuth\<close> and an empty username or password, the helper sets no
  \<open>auth\<close>: the returned descriptor's \<open>auth\<close> is the input's, so it carries none when the
  input carries none and keeps the input's when it has one. With token authentication
  and an empty access token, no \<open>Authorization\<close> header is added: the returned descriptor
  keeps the input's headers object, to which nothing was written.
\<close>

theorem zammad_empty_fields_omitted:
  assumes "getNodeParameter ef ''useZammadDynamicCredentials'' i None = Inr (JBool True)"
    and "getNodeParameter ef ''authentication'' i None = Inr a"
    and "getNodeParameter ef ''baseUrl'' i (Some (JStr [])) = Inr b"
    and "getNodeParameter ef ''allowUnauthorizedCerts'' i (Some (JBool False)) = Inr c"
  shows "(a = JStr ''basicAuth'' \<longrightarrow>
           (\<forall>u p. getNodeParameter ef ''username'' i None = Inr u \<longrightarrow>
                  getNodeParameter ef ''password'' i None = Inr p \<longrightarrow>
                  (u = JStr [] \<or> p = JStr []) \<longrightarrow>
                  (\<exists>newOptions. zammad_applyDynamicCredentials ef h options i
                                   = Inr (newOptions, h) \<and>
                                 auth newOptions = auth options \<and>
                                 (auth options = None \<longrightarrow> auth newOptions = None)))) \<and>
         (a \<noteq> JStr ''basicAuth'' \<longrightarrow>
           getNodeParameter ef ''accessToken'' i None = Inr (JStr []) \<longrightarrow>
           (\<exists>newOptions. zammad_applyDynamicCredentials ef h options i = Inr (newOptions, h) \<and>
                          headers newOptions = headers options \<and>
                          headers_map h newOptions = headers_map h options))"
proof (intro conjI impI allI)
  fix u p
  assume "a = JStr ''basicAuth''"
    and "getNodeParameter ef ''username'' i None = Inr u"
    and "getNodeParameter ef ''password'' i None = Inr p"
    and "u = JStr [] \<or> p = JStr []"
  with assms show "\<exists>newOptions. zammad_applyDynamicCredentials ef h options i
                     = Inr (newOptions, h) \<and> auth newOptions = auth options \<and>
                     (auth options = None \<longrightarrow> auth newOptions = None)"
    by (auto simp: zammad_applyDynamicCredentials_def zammad_isDynamicCredentialEnabled_eq
        zammad_getDynamicCredentials_enabled zammad_getAuthenticationType_def bindE_def
        Let_def split: jsval.splits)
next
  assume "a \<noteq> JStr ''basicAuth''"
    and "getNodeParameter ef ''accessToken'' i None = Inr (JStr [])"
  with assms show "\<exists>newOptions. zammad_applyDynamicCredentials ef h options i
                     = Inr (newOptions, h) \<and> headers newOptions = headers options \<and>
                     headers_map h newOptions = headers_map h options"
    by (auto simp: zammad_applyDynamicCredentials_def zammad_isDynamicCredentialEnabled_eq
        zammad_getDynamicCredentials_enabled zammad_getAuthenticationType_def bindE_def
        Let_def headers_map_def split: jsval.splits)
qed

theorem zammad_empty_fields_omitted_witness:
  "(\<exists>newOptions.
      zammad_applyDynamicCredentials (store_of params_zammad_basic_empty) heap_shared
        options_ticket 0 = Inr (newOptions, heap_shared) \<and>
      auth newOptions = None) \<and>
   (\<exists>newOptions.
      zammad_applyDynamicCredentials (store_of params_zammad_token_empty) heap_shared
        options_ticket 0 = Inr (newOptions, heap_shared) \<and>
      headers newOptions = Some 0 \<and>
      headers_map heap_shared newOptions ''Authorization'' = None)"
  using zammad_empty_fields_omitted
    [of "store_of params_zammad_basic_empty" 0 "JStr ''basicAuth''"
        "JStr ''https://new.example.com/''" "JBool False" heap_shared options_ticket]
    zammad_empty_fields_omitted
    [of "store_of params_zammad_token_empty" 0 "JStr ''tokenAuth''"
        "JStr ''https://new.example.com/''" "JBool False" heap_shared options_ticket]
  by (auto simp: store_of_def params_zammad_basic_empty_def params_zammad_token_empty_def
      options_ticket_def headers_map_def heap_shared_def)

text \<open>
  The claim as stated, that the returned descriptor carries no \<open>auth\<close>, fails for a
  descriptor that already carries one: \<open>{ ...options }\<close> copies it. Below, dynamic
  credentials are enabled with \<open>basicAuth\<close>, the password reads the empty string, and the
  returned descriptor carries the \<open>auth\<close> of the input.
\<close>

theorem zammad_empty_fields_omitted_counterexample:
  "zammad_isDynamicCredentialEnabled (store_of params_zammad_basic_empty) 0 = Inr True \<and>
   getNodeParameter (store_of params_zammad_basic_empty) ''authentication'' 0 None
     = Inr (JStr ''basicAuth'') \<and>
   getNodeParameter (store_of params_zammad_basic_empty) ''password'' 0 None = Inr (JStr []) \<and>
   zammad_applyDynamicCredentials (store_of params_zammad_basic_empty) heap_shared
     options_with_auth 0
     = Inr (options_with_auth
              \<lparr>uri := JStr ''https://new.example.com/api/v1/tickets/5'',
               rejectUnauthorized := JBool True\<rparr>, heap_shared) \<and>
   auth (options_with_auth
           \<lparr>uri := JStr ''https://new.example.com/api/v1/tickets/5'',
            rejectUnauthorized := JBool True\<rparr>)
     = Some (JStr ''agent@example.com'', JStr ''stored-password'')"
  by (simp add: zammad_applyDynamicCredentials_def zammad_isDynamicCredentialEnabled_eq
      zammad_getDynamicCredentials_enabled zammad_getAuthenticationType_def bindE_def
      store_of_def params_zammad_basic_empty_def options_with_auth_def match_old_uri)

text \<open>
  The caller's objects under the Zammad helper: the only object of the caller a call can
  write to is its headers object.
\<close>

lemma zammad_applyDynamicCredentials_frame:
  assumes "zammad_applyDynamicCredentials ef h options i = Inr (newOptions, h')"
    and "a < length h" and "headers options \<noteq> Some a"
  shows "h' ! a = h ! a"
  using assms
  by (auto simp: zammad_applyDynamicCredentials_def bindE_def alloc_def set_field_def
      nth_append nth_list_update Let_def
      split: sum.splits if_splits option.splits jsval.splits prod.splits)

lemma token_on_shared:
  "zammad_applyDynamicCredentials (store_of params_zammad_token) heap_shared options_shared 0
     = Inr (options_shared\<lparr>uri := JStr ''https://new.example.com/api/v1'',
                           rejectUnauthorized := JBool True\<rparr>,
            [[''Accept'' \<mapsto> JStr ''application/json'',
              ''Authorization'' \<mapsto> JStr ''Token token=t0ken''],
             [''page'' \<mapsto> JStr ''1'']])"
  by (simp add: zammad_applyDynamicCredentials_def zammad_isDynamicCredentialEnabled_eq
      zammad_getDynamicCredentials_enabled zammad_getAuthenticationType_def bindE_def
      set_field_def store_of_def params_zammad_token_def heap_shared_def options_shared_def)

lemma headers_object_changed:
  "[''Accept'' \<mapsto> JStr ''application/json'', ''Authorization'' \<mapsto> JStr ''Token token=t0ken'']
     \<noteq> [''Accept'' \<mapsto> JStr ''application/json'']"
proof
  assume "[''Accept'' \<mapsto> JStr ''application/json'',
           ''Authorization'' \<mapsto> JStr ''Token token=t0ken'']
          = [''Accept'' \<mapsto> JStr ''application/json'']"
  then have "[''Accept'' \<mapsto> JStr ''application/json'',
              ''Authorization'' \<mapsto> JStr ''Token token=t0ken''] ''Authorization''
      = [''Accept'' \<mapsto> JStr ''application/json''] ''Authorization''"
    by (rule arg_cong)
  then show False by simp
qed

text \<open>
  With token authentication, the \<open>Authorization\<close> header is written into the caller's own
  headers object.
\<close>

lemma zammad_writes_caller_headers:
  "\<exists>newOptions h'.
     zammad_applyDynamicCredentials (store_of params_zammad_token) heap_shared options_shared 0
       = Inr (newOptions, h') \<and>
     headers_map heap_shared options_shared ''Authorization'' = None \<and>
     headers_map h' options_shared ''Authorization'' = Some (JStr ''Token token=t0ken'') \<and>
     structure_of h' options_shared \<noteq> structure_of heap_shared options_shared"
proof (intro exI conjI)
  show "zammad_applyDynamicCredentials (store_of params_zammad_token) heap_shared
          options_shared 0
     = Inr (options_shared\<lparr>uri := JStr ''https://new.example.com/api/v1'',
                           rejectUnauthorized := JBool True\<rparr>,
            [[''Accept'' \<mapsto> JStr ''application/json'',
              ''Authorization'' \<mapsto> JStr ''Token token=t0ken''],
             [''page'' \<mapsto> JStr ''1'']])"
    by (rule token_on_shared)
  show "headers_map heap_shared options_shared ''Authorization'' = None"
    by (simp add: headers_map_def heap_shared_def options_shared_def)
  show "headers_map
          [[''Accept'' \<mapsto> JStr ''application/json'',
            ''Authorization'' \<mapsto> JStr ''Token token=t0ken''],
           [''page'' \<mapsto> JStr ''1'']]
          options_shared ''Authorization'' = Some (JStr ''Token token=t0ken'')"
    by (simp add: headers_map_def options_shared_def)
  show "structure_of
          [[''Accept'' \<mapsto> JStr ''application/json'',
            ''Authorization'' \<mapsto> JStr ''Token token=t0ken''],
           [''page'' \<mapsto> JStr ''1'']]
          options_shared \<noteq> structure_of heap_shared options_shared"
    using headers_object_changed
    by (simp add: structure_of_def heap_shared_def options_shared_def)
qed

text \<open>
  Claim C1 on the code. The claim says the caller's descriptor is deep-equal before and
  after every call. The generic helper copies the headers but not the query object: an
  API key sent in the query is written into the caller's \<open>qs\<close>. The Zammad helper copies
  neither: a token is written into the caller's headers. In both calls below the
  caller's descriptor \<open>options_shared\<close> differs after the call from what it was before.
\<close>

theorem applyDynamicCredentials_mutates_caller:
  "(\<exists>newOptions h'.
      applyDynamicCredentials (store_of params_apiKey_query) heap_shared options_shared 0
        = Inr (newOptions, h') \<and>
      query_map heap_shared options_shared ''X-API-Key'' = None \<and>
      query_map h' options_shared ''X-API-Key'' = Some (JStr ''abc'') \<and>
      structure_of h' options_shared \<noteq> structure_of heap_shared options_shared) \<and>
   (\<exists>newOptions h'.
      zammad_applyDynamicCredentials (store_of params_zammad_token) heap_shared
        options_shared 0 = Inr (newOptions, h') \<and>
      headers_map heap_shared options_shared ''Authorization'' = None \<and>
      headers_map h' options_shared ''Authorization'' = Some (JStr ''Token token=t0ken'') \<and>
      structure_of h' options_shared \<noteq> structure_of heap_shared options_shared)"
  using applyDynamicCredentials_writes_caller_qs zammad_writes_caller_headers
  by (rule conjI)

section \<open>Properties of the credentials proxy\<close>

text \<open>
  What the proxy does, branch by branch. When the flag reads a truthy value and the
  resolution succeeds, the dynamic credentials are returned and \<open>originalMethod\<close> is not
  invoked. When the read of the flag or the resolution throws, \<open>originalMethod\<close> is invoked
  exactly once with the original arguments and what it does (return or throw) is the
  proxy's result. When the flag reads a falsy value and \<open>originalMethod\<close> returns, it was
  invoked exactly once.
\<close>

lemma proxy_returns_dynamic:
  assumes "getNodeParameter ef ''useDynamicCredentials'' 0 (Some (JBool False)) = Inr u"
    and "truthy u"
    and "getDynamicCredentials ef 0 = Inr dynamicCredentials"
  shows "createCredentialsProxy f ef args w = (Inr (Resolved dynamicCredentials), w)"
  using assms by (simp add: createCredentialsProxy_def)

lemma proxy_falls_back_when_resolution_throws:
  assumes "getNodeParameter ef ''useDynamicCredentials'' 0 (Some (JBool False)) = Inr u"
    and "truthy u"
    and "getDynamicCredentials ef 0 = Inl e"
    and "f args s = (r, s')"
  shows "createCredentialsProxy f ef args (s, calls)
           = (map_sum id Original r, (s', calls @ [args]))"
  using assms by (simp add: createCredentialsProxy_def invoke_def)

lemma proxy_falls_back_when_flag_read_throws:
  assumes "getNodeParameter ef ''useDynamicCredentials'' 0 (Some (JBool False)) = Inl e"
    and "f args s = (r, s')"
  shows "createCredentialsProxy f ef args (s, calls)
           = (map_sum id Original r, (s', calls @ [args]))"
  using assms by (simp add: createCredentialsProxy_def invoke_def)

lemma proxy_static_when_disabled:
  assumes "getNodeParameter ef ''useDynamicCredentials'' 0 (Some (JBool False)) = Inr u"
    and "\<not> truthy u"
    and "f args s = (Inr r, s')"
  shows "createCredentialsProxy f ef args (s, calls) = (Inr (Original r), (s', calls @ [args]))"
  using assms by (simp add: createCredentialsProxy_def invoke_def)

text \<open>
  When the flag reads a falsy value and \<open>originalMethod\<close> throws, the exception is caught
  by the same handler, which invokes \<open>originalMethod\<close> a second time.
\<close>

lemma proxy_retries_when_static_throws:
  assumes "getNodeParameter ef ''useDynamicCredentials'' 0 (Some (JBool False)) = Inr u"
    and "\<not> truthy u"
    and "f args s = (Inl e, s')"
    and "f args s' = (r, s'')"
  shows "createCredentialsProxy f ef args (s, calls)
           = (map_sum id Original r, (s'', calls @ [args] @ [args]))"
  using assms by (simp add: createCredentialsProxy_def invoke_def)

text \<open>
  Claim C2 on the code. The claim says that whenever the proxy does not return dynamic
  credentials it invokes the original function exactly once. With the flag absent (the
  fallback \<open>false\<close> is read) and a static lookup that throws, the proxy invokes the lookup
  twice before the exception reaches the caller.
\<close>

theorem createCredentialsProxy_invokes_twice:
  "getNodeParameter (store_of []) ''useDynamicCredentials'' 0 (Some (JBool False))
     = Inr (JBool False) \<and>
   createCredentialsProxy failing_lookup (store_of []) [JStr ''zammadTokenAuthApi''] ((), [])
     = (Inl (new_Error ''Node does not have any credentials set''),
        ((), [ [JStr ''zammadTokenAuthApi''], [JStr ''zammadTokenAuthApi''] ]))"
  by (simp add: createCredentialsProxy_def invoke_def failing_lookup_def store_of_def)

section \<open>Properties of the node description transform\<close>

text \<open>On plain JSON data the clone is deep-equal to the original.\<close>

lemma json_clone_data: "json_data v \<Longrightarrow> json_clone v = v"
proof (induction v rule: json_clone.induct)
  case (1 xs)
  have "(if x = JUndefined then JNull else json_clone x) = x" if "x \<in> set xs" for x
  proof -
    from that "1.prems" have d: "json_data x" by (simp add: list_all_iff)
    then have "x \<noteq> JUndefined" by auto
    with that d "1.IH" show ?thesis by simp
  qed
  then show ?case by (simp add: map_idI)
next
  case (2 kvs)
  have keep: "filter (\<lambda>(k, v). v \<noteq> JUndefined) kvs = kvs"
  proof (rule filter_True)
    show "\<forall>x\<in>set kvs. case x of (k, v) \<Rightarrow> v \<noteq> JUndefined"
      using "2.prems" by (auto simp: list_all_iff)
  qed
  have "(case kv of (k, v) \<Rightarrow> (k, json_clone v)) = kv" if "kv \<in> set kvs" for kv
  proof (cases kv)
    case (Pair k v)
    with that "2.prems" have d: "json_data v" by (auto simp: list_all_iff)
    from that keep have "kv \<in> set (filter (\<lambda>(k, v). v \<noteq> JUndefined) kvs)" by metis
    then have "json_clone v = v" using Pair[symmetric] d by (rule "2.IH")
    with Pair show ?thesis by simp
  qed
  then show ?case by (simp add: keep map_idI)
qed simp_all

lemma clone_elements_data: "list_all json_data xs \<Longrightarrow> clone_elements xs = xs"
proof -
  assume a: "list_all json_data xs"
  have "(if x = JUndefined then JNull else json_clone x) = x" if "x \<in> set xs" for x
  proof -
    from that a have d: "json_data x" by (simp add: list_all_iff)
    then have "x \<noteq> JUndefined" by auto
    with d show ?thesis by (simp add: json_clone_data)
  qed
  then show ?thesis by (simp add: clone_elements_def map_idI)
qed

lemma addDynamicCredentialsProperties_eq:
  "addDynamicCredentialsProperties store a =
     (length store,
      store @ [\<lparr>properties = Some (dynamicCredentialsProperties @
                   (case properties (store ! a) of None \<Rightarrow> [] | Some ps \<Rightarrow> clone_elements ps)),
                credentials = map_option
                   (map (\<lambda>c. (clone_credential c)\<lparr>required := Some False\<rparr>))
                   (credentials (store ! a)),
                other_fields = clone_fields (other_fields (store ! a))\<rparr>])"
  by (cases "properties (store ! a)"; cases "credentials (store ! a)")
     (simp_all add: addDynamicCredentialsProperties_def json_clone_description_def Let_def)

text \<open>
  Claim C8. \<open>addDynamicCredentialsProperties\<close> returns a new description, at an address the
  store did not hold, and leaves every description of the store, the input among them,
  as it was. The new description's properties are the dynamic-credential properties
  followed by the existing ones (their JSON clones, which are the existing properties
  themselves when these are plain JSON data; none when the input has no properties).
  Every entry of its credentials list has \<open>required\<close> set to \<open>false\<close>, and the list names
  the same credentials as the input's.
\<close>

theorem addDynamicCredentialsProperties_result:
  "\<exists>newDescription store'.
     addDynamicCredentialsProperties store nodeDescription = (newDescription, store') \<and>
     newDescription = length store \<and>
     length store' = Suc (length store) \<and>
     (\<forall>a < length store. store' ! a = store ! a) \<and>
     properties (store' ! newDescription) =
       Some (dynamicCredentialsProperties @
             (case properties (store ! nodeDescription) of
                None \<Rightarrow> []
              | Some ps \<Rightarrow> clone_elements ps)) \<and>
     (\<forall>ps. properties (store ! nodeDescription) = Some ps \<longrightarrow> list_all json_data ps \<longrightarrow>
        properties (store' ! newDescription) = Some (dynamicCredentialsProperties @ ps)) \<and>
     (\<forall>cs. credentials (store' ! newDescription) = Some cs \<longrightarrow>
        (\<forall>c \<in> set cs. required c = Some False)) \<and>
     map_option (map name) (credentials (store' ! newDescription)) =
       map_option (map name) (credentials (store ! nodeDescription))"
  by (cases "properties (store ! nodeDescription)"; cases "credentials (store ! nodeDescription)")
     (auto simp: addDynamicCredentialsProperties_eq nth_append clone_elements_data
        clone_credential_def comp_def)

theorem addDynamicCredentialsProperties_result_witness:
  "\<exists>newDescription store'.
     addDynamicCredentialsProperties [description_zammad] 0 = (newDescription, store') \<and>
     newDescription = 1 \<and>
     store' ! 0 = description_zammad \<and>
     properties (store' ! 1) =
       Some (dynamicCredentialsProperties @
             [JObj [(''displayName'', JStr ''Resource''), (''name'', JStr ''resource''),
                    (''type'', JStr ''options''), (''default'', JStr ''user'')]]) \<and>
     credentials (store' ! 1) =
       Some [\<lparr>name = ''zammadBasicAuthApi'', required = Some False, extra = []\<rparr>,
             \<lparr>name = ''zammadTokenAuthApi'', required = Some False, extra = []\<rparr>]"
  using addDynamicCredentialsProperties_result [of "[description_zammad]" 0]
  by (simp add: addDynamicCredentialsProperties_eq description_zammad_def clone_elements_def
      clone_credential_def clone_fields_def)

section \<open>Properties of the Microsoft Outlook request helpers\<close>

text \<open>
  The calls one \<open>microsoftApiRequest\<close> adds: lookups of the static credentials, then at
  most one request, whose \<open>qs\<close> is the query object it was given.
\<close>

lemma requests_of_append: "requests_of (a @ b) = requests_of a @ requests_of b"
  by (induction a rule: requests_of.induct) simp_all

lemma static_credentials_log:
  "static_credentials this log = (r, log1) \<Longrightarrow>
     log1 = log @ [GetCredentials ''microsoftOutlookOAuth2Api'']"
  by (auto simp: static_credentials_def)

lemma request_credentials_log:
  assumes "request_credentials this log itemIndex = (r, log1)"
  shows "\<exists>ext. log1 = log @ ext \<and> requests_of ext = []"
proof -
  have "log1 = log \<or> log1 = log @ [GetCredentials ''microsoftOutlookOAuth2Api''] \<or>
        log1 = log @ [GetCredentials ''microsoftOutlookOAuth2Api'',
                      GetCredentials ''microsoftOutlookOAuth2Api'']"
    using assms
    by (auto simp: request_credentials_def static_credentials_def
        split: option.splits sum.splits if_splits prod.splits)
  then show ?thesis
  proof (elim disjE)
    assume "log1 = log"
    then have "log1 = log @ [] \<and> requests_of [] = []" by simp
    then show ?thesis by blast
  next
    assume "log1 = log @ [GetCredentials ''microsoftOutlookOAuth2Api'']"
    then have "log1 = log @ [GetCredentials ''microsoftOutlookOAuth2Api''] \<and>
               requests_of [GetCredentials ''microsoftOutlookOAuth2Api''] = []" by simp
    then show ?thesis by blast
  next
    assume "log1 = log @ [GetCredentials ''microsoftOutlookOAuth2Api'',
                      GetCredentials ''microsoftOutlookOAuth2Api'']"
    then have "log1 = log @ [GetCredentials ''microsoftOutlookOAuth2Api'',
                      GetCredentials ''microsoftOutlookOAuth2Api''] \<and>
               requests_of [GetCredentials ''microsoftOutlookOAuth2Api'',
                      GetCredentials ''microsoftOutlookOAuth2Api''] = []" by simp
    then show ?thesis by blast
  qed
qed

lemma microsoftApiRequest_after_credentials:
  assumes "microsoftApiRequest this log m resource b q u hs opt i = (r, log')"
    and "request_credentials this log i = (rc, log1)"
  shows "(log' = log1 \<and> (\<exists>e. r = Inl e)) \<or>
         (\<exists>rq. (log' = log1 @ [Request rq] \<or>
                log' = log1 @ [RequestWithAuthentication ''microsoftOutlookOAuth2Api'' rq]) \<and>
               req_qs rq = (case q of None \<Rightarrow> Map.empty | Some x \<Rightarrow> x))"
  using assms
  by (auto simp: microsoftApiRequest_def Let_def
      split: sum.splits if_splits prod.splits)

lemma microsoftApiRequest_log:
  assumes "microsoftApiRequest this log m resource b q u hs opt i = (r, log')"
  shows "\<exists>ext. log' = log @ ext \<and>
           ((requests_of ext = [] \<and> (\<exists>e. r = Inl e)) \<or>
            (\<exists>rq. requests_of ext = [rq] \<and>
                  req_qs rq = (case q of None \<Rightarrow> Map.empty | Some x \<Rightarrow> x)))"
proof -
  obtain rc log1 where rc: "request_credentials this log i = (rc, log1)"
    by (cases "request_credentials this log i")
  then obtain ext1 where ext1: "log1 = log @ ext1" "requests_of ext1 = []"
    using request_credentials_log by blast
  from microsoftApiRequest_after_credentials[OF assms rc]
  show ?thesis
  proof (elim disjE exE conjE)
    fix e assume "log' = log1" "r = Inl e"
    with ext1 show ?thesis by blast
  next
    fix rq assume q: "req_qs rq = (case q of None \<Rightarrow> Map.empty | Some x \<Rightarrow> x)"
      and "log' = log1 @ [Request rq]"
    with ext1 have "log' = log @ (ext1 @ [Request rq])"
      "requests_of (ext1 @ [Request rq]) = [rq]"
      by (simp_all add: requests_of_append)
    with q show ?thesis by blast
  next
    fix rq assume q: "req_qs rq = (case q of None \<Rightarrow> Map.empty | Some x \<Rightarrow> x)"
      and "log' = log1 @ [RequestWithAuthentication ''microsoftOutlookOAuth2Api'' rq]"
    with ext1 have
      "log' = log @ (ext1 @ [RequestWithAuthentication ''microsoftOutlookOAuth2Api'' rq])"
      "requests_of (ext1 @ [RequestWithAuthentication ''microsoftOutlookOAuth2Api'' rq]) = [rq]"
      by (simp_all add: requests_of_append)
    with q show ?thesis by blast
  qed
qed

text \<open>
  One iteration of the loop: either the call returns or throws in it, or the loop goes on
  after a response, with the next link that response named.
\<close>

lemma allItems_loop_step:
  assumes "microsoftApiRequest this log m e b (if truthy nl then None else Some (h ! q)) nl hs
             [(''json'', JBool True)] i = (r, log1)"
  shows "(\<exists>out. \<forall>fuel. allItems_loop (Suc fuel) this al h p m e b q hs i nl rd log
                         = (Some out, log1)) \<or>
         (\<exists>resp nl' rd'. r = Inr resp \<and>
            (\<forall>fuel. allItems_loop (Suc fuel) this al h p m e b q hs i nl rd log
                      = allItems_loop fuel this al h p m e b q hs i nl' rd' log1))"
proof (cases r)
  case (Inl err)
  with assms show ?thesis by simp
next
  case resp: (Inr responseData)
  show ?thesis
  proof (cases "get_member responseData ''@odata.nextLink''")
    case (Inl err)
    with assms resp show ?thesis by simp
  next
    case link: (Inr nl')
    show ?thesis
    proof (cases "apply_arguments al (get_prop responseData p)")
      case (Inl err)
      with assms resp link show ?thesis by simp
    next
      case items: (Inr xs)
      show ?thesis
      proof (cases "nl' = JUndefined")
        case True
        with assms resp link items show ?thesis by simp
      next
        case False
        with assms resp link items
        have "\<forall>fuel. allItems_loop (Suc fuel) this al h p m e b q hs i nl rd log
                = allItems_loop fuel this al h p m e b q hs i nl' (rd @ xs) log1"
          by simp
        with resp show ?thesis by blast
      qed
    qed
  qed
qed

text \<open>The loop only adds calls, and its first request carries the query object.\<close>

lemma allItems_loop_log_extends:
  "\<exists>ext. snd (allItems_loop fuel this al h p m e b q hs i nl rd log) = log @ ext"
proof (induction fuel arbitrary: nl rd log)
  case 0
  show ?case by simp
next
  case (Suc fuel)
  obtain r log1 where call:
    "microsoftApiRequest this log m e b (if truthy nl then None else Some (h ! q)) nl hs
       [(''json'', JBool True)] i = (r, log1)"
    by (cases "microsoftApiRequest this log m e b (if truthy nl then None else Some (h ! q))
                 nl hs [(''json'', JBool True)] i")
  then obtain ext1 where ext1: "log1 = log @ ext1"
    using microsoftApiRequest_log by blast
  from allItems_loop_step[OF call, of al p rd] show ?case
  proof (elim disjE exE conjE)
    fix out
    assume "\<forall>fuel. allItems_loop (Suc fuel) this al h p m e b q hs i nl rd log
                     = (Some out, log1)"
    with ext1 show ?thesis by simp
  next
    fix resp nl' rd'
    assume step: "\<forall>fuel. allItems_loop (Suc fuel) this al h p m e b q hs i nl rd log
                     = allItems_loop fuel this al h p m e b q hs i nl' rd' log1"
    from Suc.IH[of nl' rd' log1] obtain ext2 where
      "snd (allItems_loop fuel this al h p m e b q hs i nl' rd' log1) = log1 @ ext2" by blast
    with ext1 step
    have "snd (allItems_loop (Suc fuel) this al h p m e b q hs i nl rd log)
            = log @ (ext1 @ ext2)" by simp
    then show ?thesis by blast
  qed
qed

lemma allItems_loop_first_request:
  assumes "\<not> truthy nl"
  shows "\<exists>ext. snd (allItems_loop fuel this al h p m e b q hs i nl rd log) = log @ ext \<and>
           (case requests_of ext of [] \<Rightarrow> True | rq # _ \<Rightarrow> req_qs rq = h ! q)"
proof (cases fuel)
  case 0
  then have "snd (allItems_loop fuel this al h p m e b q hs i nl rd log) = log @ [] \<and>
      (case requests_of [] of [] \<Rightarrow> True | rq # _ \<Rightarrow> req_qs rq = h ! q)" by simp
  then show ?thesis by blast
next
  case (Suc n)
  obtain r log1 where call:
    "microsoftApiRequest this log m e b (if truthy nl then None else Some (h ! q)) nl hs
       [(''json'', JBool True)] i = (r, log1)"
    by (cases "microsoftApiRequest this log m e b (if truthy nl then None else Some (h ! q))
                 nl hs [(''json'', JBool True)] i")
  from microsoftApiRequest_log[OF call] assms obtain ext1 where ext1: "log1 = log @ ext1"
    and first: "(requests_of ext1 = [] \<and> (\<exists>e. r = Inl e)) \<or>
                (\<exists>rq. requests_of ext1 = [rq] \<and> req_qs rq = h ! q)"
    by auto
  from allItems_loop_step[OF call, of al p rd] show ?thesis
  proof (elim disjE exE conjE)
    fix out
    assume "\<forall>fuel. allItems_loop (Suc fuel) this al h p m e b q hs i nl rd log
                     = (Some out, log1)"
    with Suc ext1
    have whole: "snd (allItems_loop fuel this al h p m e b q hs i nl rd log) = log @ ext1"
      by simp
    from first have "(case requests_of ext1 of [] \<Rightarrow> True | rq # _ \<Rightarrow> req_qs rq = h ! q)"
      by auto
    with whole show ?thesis by blast
  next
    fix resp nl' rd'
    assume resp: "r = Inr resp"
      and step: "\<forall>fuel. allItems_loop (Suc fuel) this al h p m e b q hs i nl rd log
                     = allItems_loop fuel this al h p m e b q hs i nl' rd' log1"
    from allItems_loop_log_extends[of n this al h p m e b q hs i nl' rd' log1]
    obtain ext2 where
      "snd (allItems_loop n this al h p m e b q hs i nl' rd' log1) = log1 @ ext2" by blast
    with Suc step ext1
    have whole: "snd (allItems_loop fuel this al h p m e b q hs i nl rd log)
                   = log @ (ext1 @ ext2)" by simp
    from first resp obtain rq where "requests_of ext1 = [rq]" "req_qs rq = h ! q" by auto
    then have "(case requests_of (ext1 @ ext2) of [] \<Rightarrow> True | rq # _ \<Rightarrow> req_qs rq = h ! q)"
      by (simp add: requests_of_append)
    with whole show ?thesis by blast
  qed
qed

text \<open>
  Once the call has returned or thrown, more iterations change nothing: the bound only
  cuts off calls that are still running.
\<close>

lemma allItems_loop_stable:
  assumes "allItems_loop fuel this al h p m e b q hs i nl rd log = (Some r, log')"
  shows "allItems_loop (fuel + k) this al h p m e b q hs i nl rd log = (Some r, log')"
  using assms
proof (induction fuel arbitrary: nl rd log)
  case 0
  then show ?case by simp
next
  case (Suc fuel)
  obtain res log1 where call:
    "microsoftApiRequest this log m e b (if truthy nl then None else Some (h ! q)) nl hs
       [(''json'', JBool True)] i = (res, log1)"
    by (cases "microsoftApiRequest this log m e b (if truthy nl then None else Some (h ! q))
                 nl hs [(''json'', JBool True)] i")
  from allItems_loop_step[OF call, of al p rd] show ?case
  proof (elim disjE exE conjE)
    fix out
    assume always: "\<forall>fuel. allItems_loop (Suc fuel) this al h p m e b q hs i nl rd log
                     = (Some out, log1)"
    then have "allItems_loop (Suc fuel) this al h p m e b q hs i nl rd log = (Some out, log1)"
      and "allItems_loop (Suc (fuel + k)) this al h p m e b q hs i nl rd log
             = (Some out, log1)"
      by blast+
    with Suc.prems show ?thesis by simp
  next
    fix resp nl' rd'
    assume step: "\<forall>fuel. allItems_loop (Suc fuel) this al h p m e b q hs i nl rd log
                     = allItems_loop fuel this al h p m e b q hs i nl' rd' log1"
    then have one: "allItems_loop (Suc fuel) this al h p m e b q hs i nl rd log
                     = allItems_loop fuel this al h p m e b q hs i nl' rd' log1"
      and more: "allItems_loop (Suc (fuel + k)) this al h p m e b q hs i nl rd log
                     = allItems_loop (fuel + k) this al h p m e b q hs i nl' rd' log1"
      by blast+
    from one Suc.prems
    have "allItems_loop fuel this al h p m e b q hs i nl' rd' log1 = (Some r, log')" by simp
    then have "allItems_loop (fuel + k) this al h p m e b q hs i nl' rd' log1
                 = (Some r, log')" by (rule Suc.IH)
    with more show ?thesis by simp
  qed
qed

text \<open>
  Claim C9. For every call of \<open>microsoftApiRequestAllItems\<close> with a query object of the
  caller, at every point of the call (after any number of iterations of its loop,
  whether the call has returned, has thrown or is still running): the caller's object
  holds \<open>$top = 100\<close> and is otherwise as it was, no other object of the store has
  changed, and the first request made so far, if there is one, carried \<open>$top = 100\<close> in
  its query. Before the first iteration the store already holds the write and no call
  has been made to the host.
\<close>

theorem microsoftApiRequestAllItems_sets_top:
  assumes "q < length h"
  shows "\<exists>outcome h' log'.
           microsoftApiRequestAllItems fuel this al h log p m e b (Some q) hs i
             = (outcome, h', log') \<and>
           microsoftApiRequestAllItems 0 this al h log p m e b (Some q) hs i
             = (None, h', log) \<and>
           h' ! q = (h ! q)(''$top'' \<mapsto> JNum ''100'') \<and>
           length h' = length h \<and>
           (\<forall>a < length h. a \<noteq> q \<longrightarrow> h' ! a = h ! a) \<and>
           (\<exists>ext. log' = log @ ext \<and>
              (case requests_of ext of
                 [] \<Rightarrow> True
               | rq # _ \<Rightarrow> req_qs rq = (h ! q)(''$top'' \<mapsto> JNum ''100'')))"
proof -
  let ?h1 = "set_field h q ''$top'' (JNum ''100'')"
  let ?loop = "allItems_loop fuel this al ?h1 p m e b q hs i JUndefined [] log"
  have run: "microsoftApiRequestAllItems fuel this al h log p m e b (Some q) hs i
               = (fst ?loop, ?h1, snd ?loop)"
    by (simp add: microsoftApiRequestAllItems_def Let_def split: prod.splits)
  have start: "microsoftApiRequestAllItems 0 this al h log p m e b (Some q) hs i
               = (None, ?h1, log)"
    by (simp add: microsoftApiRequestAllItems_def)
  from assms have cell: "?h1 ! q = (h ! q)(''$top'' \<mapsto> JNum ''100'')"
    by (simp add: set_field_def)
  have len: "length ?h1 = length h"
    by (simp add: set_field_def)
  have others: "\<forall>a < length h. a \<noteq> q \<longrightarrow> ?h1 ! a = h ! a"
    by (simp add: set_field_def)
  have "\<not> truthy JUndefined" by simp
  from allItems_loop_first_request[OF this, of fuel this al ?h1 p m e b q hs i "[]" log,
      unfolded cell]
  have first: "\<exists>ext. snd ?loop = log @ ext \<and>
              (case requests_of ext of
                 [] \<Rightarrow> True
               | rq # _ \<Rightarrow> req_qs rq = (h ! q)(''$top'' \<mapsto> JNum ''100''))" .
  from run start cell len others first show ?thesis by blast
qed

text \<open>A call that returns: one page, one request.\<close>

lemma one_page_request:
  "microsoftApiRequest host_one_page [] (JStr ''GET'') ''/messages'' []
     (Some [''page'' \<mapsto> JStr ''1'', ''$top'' \<mapsto> JNum ''100'']) JUndefined []
     [(''json'', JBool True)] 0 =
   (Inr (JObj [(''value'', JArr [JObj [(''id'', JStr ''m1'')]])]),
    [GetCredentials ''microsoftOutlookOAuth2Api'',
     RequestWithAuthentication ''microsoftOutlookOAuth2Api''
       \<lparr>req_headers = [(''Content-Type'', JStr ''application/json'')],
        req_method = JStr ''GET'',
        req_body = None,
        req_qs = [''page'' \<mapsto> JStr ''1'', ''$top'' \<mapsto> JNum ''100''],
        req_uri = JStr ''https://graph.microsoft.com/v1.0/me/messages'',
        req_option = [(''json'', JBool True)]\<rparr>])"
  by (simp add: microsoftApiRequest_def request_credentials_def static_credentials_def
      host_one_page_def get_member_def bindE_def object_assign_def)

lemma one_page_all_items:
  "microsoftApiRequestAllItems (Suc (Suc 0)) host_one_page no_array_like heap_shared []
     ''value'' (JStr ''GET'') ''/messages'' [] (Some 1) [] 0 =
   (Some (Inr [JObj [(''id'', JStr ''m1'')]]),
    [[''Accept'' \<mapsto> JStr ''application/json''],
     [''page'' \<mapsto> JStr ''1'', ''$top'' \<mapsto> JNum ''100'']],
    [GetCredentials ''microsoftOutlookOAuth2Api'',
     RequestWithAuthentication ''microsoftOutlookOAuth2Api''
       \<lparr>req_headers = [(''Content-Type'', JStr ''application/json'')],
        req_method = JStr ''GET'',
        req_body = None,
        req_qs = [''page'' \<mapsto> JStr ''1'', ''$top'' \<mapsto> JNum ''100''],
        req_uri = JStr ''https://graph.microsoft.com/v1.0/me/messages'',
        req_option = [(''json'', JBool True)]\<rparr>])"
  by (simp add: microsoftApiRequestAllItems_def heap_shared_def set_field_def
      one_page_request get_member_def apply_arguments_def)

theorem microsoftApiRequestAllItems_sets_top_witness:
  "(1 :: nat) < length heap_shared \<and>
   microsoftApiRequestAllItems (Suc (Suc 0)) host_one_page no_array_like heap_shared []
     ''value'' (JStr ''GET'') ''/messages'' [] (Some 1) [] 0 =
   (Some (Inr [JObj [(''id'', JStr ''m1'')]]),
    [[''Accept'' \<mapsto> JStr ''application/json''],
     [''page'' \<mapsto> JStr ''1'', ''$top'' \<mapsto> JNum ''100'']],
    [GetCredentials ''microsoftOutlookOAuth2Api'',
     RequestWithAuthentication ''microsoftOutlookOAuth2Api''
       \<lparr>req_headers = [(''Content-Type'', JStr ''application/json'')],
        req_method = JStr ''GET'',
        req_body = None,
        req_qs = [''page'' \<mapsto> JStr ''1'', ''$top'' \<mapsto> JNum ''100''],
        req_uri = JStr ''https://graph.microsoft.com/v1.0/me/messages'',
        req_option = [(''json'', JBool True)]\<rparr>]) \<and>
   [[''Accept'' \<mapsto> JStr ''application/json''],
    [''page'' \<mapsto> JStr ''1'', ''$top'' \<mapsto> JNum ''100'']] ! 1
     = (heap_shared ! 1)(''$top'' \<mapsto> JNum ''100'')"
proof -
  have valid: "(1 :: nat) < length heap_shared" by (simp add: heap_shared_def)
  from microsoftApiRequestAllItems_sets_top [OF valid, of "Suc (Suc 0)" host_one_page
      no_array_like "[]" "''value''" "JStr ''GET''" "''/messages''" "[]" "[]" 0]
    one_page_all_items valid
  show ?thesis by (simp add: heap_shared_def)
qed


text \<open>
  A call that never returns: the host names a next page in every response. After any
  number of iterations the call is still running.
\<close>

lemma endless_request:
  "microsoftApiRequest host_endless log m e b q u hs [(''json'', JBool True)] i =
     (Inr (JObj [(''@odata.nextLink'',
                  JStr ''https://graph.microsoft.com/v1.0/me/messages?$skip=100''),
                 (''value'', JArr [JObj [(''id'', JStr ''m1'')]])]),
      snd (microsoftApiRequest host_endless log m e b q u hs [(''json'', JBool True)] i))"
  by (simp add: microsoftApiRequest_def request_credentials_def static_credentials_def
      host_endless_def get_member_def bindE_def Let_def)

lemma endless_still_running:
  "fst (allItems_loop fuel host_endless al h ''value'' m e b q hs i nl rd log) = None"
proof (induction fuel arbitrary: nl rd log)
  case 0
  show ?case by simp
next
  case (Suc fuel)
  show ?case
    by (subst allItems_loop.simps, subst endless_request)
       (simp add: get_member_def apply_arguments_def Suc.IH)
qed

lemma endless_all_items_still_running:
  "fst (microsoftApiRequestAllItems fuel host_endless al h log ''value'' m e b (Some q) hs i)
     = None"
  by (simp add: microsoftApiRequestAllItems_def Let_def endless_still_running
      split: prod.splits)
     (metis endless_still_running fst_conv)


text \<open>
  \<open>microsoftApiRequest\<close> has the proxy's shape: the static lookup of the \<open>else\<close> branch is
  awaited inside the \<open>try\<close> block, so a lookup that rejects is made a second time by the
  handler.
\<close>

lemma request_credentials_static_lookup_twice:
  "request_credentials host_no_credentials [] 0 =
     (Inl (new_Error ''Node does not have any credentials set''),
      [GetCredentials ''microsoftOutlookOAuth2Api'',
       GetCredentials ''microsoftOutlookOAuth2Api''])"
  by (simp add: request_credentials_def static_credentials_def host_no_credentials_def
      store_of_def)

end
